theory Spec2Isabelle
  imports Main
begin

section \<open>Messages and tool calls\<close>

text \<open>
  The router handles messages as Python dicts decoded from JSON. A key that may be absent
  is an \<open>option\<close> field (\<open>None\<close>: the key is not in the dict), so that
  \<^verbatim>\<open>msg.get("role")\<close> and \<^verbatim>\<open>"tool_calls" in msg\<close> are read off the field. The value
  under \<^verbatim>\<open>content\<close> is a JSON string or JSON null (an assistant decision may carry no text);
  the values under the other keys are strings, and \<^verbatim>\<open>tool_calls\<close> holds a list of dicts.
  Keys the code never reads are not represented.
\<close>

datatype pyval = PyNone | PyStr string

record func =
  fn_name :: "string option"
  fn_arguments :: "string option"

record tool_call =
  tc_id :: "string option"
  tc_type :: "string option"
  tc_function :: "func option"

record message =
  role :: "string option"
  content :: "pyval option"
  tool_calls :: "tool_call list option"
  tool_call_id :: "string option"
  name :: "string option"

text \<open>Python truthiness of an optional string: neither \<^verbatim>\<open>None\<close> nor empty.\<close>

definition truthy :: "string option \<Rightarrow> bool" where
  "truthy v = (case v of None \<Rightarrow> False | Some s \<Rightarrow> s \<noteq> [])"

text \<open>\<^verbatim>\<open>tool_call.get("function", {}).get("name")\<close>\<close>

definition tc_fname :: "tool_call \<Rightarrow> string option" where
  "tc_fname tc = (case tc_function tc of None \<Rightarrow> None | Some f \<Rightarrow> fn_name f)"

text \<open>
  The matching rule of both passes (llm_router.py, lines 107-108 and 144-145):
  \<^verbatim>\<open>(tool_call_id and tool_call_id == msg.get("tool_call_id")) or
  (tool_name and tool_name == msg.get("name"))\<close>.
\<close>

definition call_matches :: "tool_call \<Rightarrow> message \<Rightarrow> bool" where
  "call_matches tc msg \<longleftrightarrow>
     (truthy (tc_id tc) \<and> tc_id tc = tool_call_id msg) \<or>
     (truthy (tc_fname tc) \<and> tc_fname tc = name msg)"

definition is_tool :: "message \<Rightarrow> bool" where
  "is_tool msg \<longleftrightarrow> role msg = Some ''tool''"

text \<open>\<^verbatim>\<open>msg.get("role") == "assistant" and "tool_calls" in msg\<close>\<close>

definition has_tool_calls :: "message \<Rightarrow> bool" where
  "has_tool_calls msg \<longleftrightarrow> role msg = Some ''assistant'' \<and> tool_calls msg \<noteq> None"

section \<open>The chain validator of \<open>format_messages_with_memory\<close>\<close>

subsection \<open>First pass: orphaned tool messages\<close>

text \<open>
  The backward search \<^verbatim>\<open>for j in range(i - 1, -1, -1)\<close> runs over the messages before
  index \<open>i\<close>, newest first; \<open>prevs\<close> is that reversed prefix of \<open>history_messages\<close>.
\<close>

definition has_valid_assistant :: "message list \<Rightarrow> message \<Rightarrow> bool" where
  "has_valid_assistant prevs msg =
     list_ex (\<lambda>prev_msg. has_tool_calls prev_msg \<and>
                list_ex (\<lambda>tc. call_matches tc msg) (the (tool_calls prev_msg))) prevs"

text \<open>
  An orphan is logged with \<^verbatim>\<open>msg.get("content", "")[:50]\<close>, which raises \<^verbatim>\<open>TypeError\<close> when
  the content is null. Every exception of the validator is caught by the enclosing
  \<^verbatim>\<open>except Exception\<close>, so the model only records that one was raised: \<open>None\<close>.
\<close>

fun pass1 :: "message list \<Rightarrow> message list \<Rightarrow> message list option" where
  "pass1 prevs [] = Some []"
| "pass1 prevs (msg # rest) =
     (if is_tool msg \<and> \<not> has_valid_assistant prevs msg then
        (if content msg = Some PyNone then None else pass1 (msg # prevs) rest)
      else map_option ((#) msg) (pass1 (msg # prevs) rest))"

subsection \<open>Second pass: assembling the chains\<close>

text \<open>
  The inner loop \<^verbatim>\<open>for j in range(i + 1, len(valid_messages))\<close>: a tool message is collected
  when it matches an entry, a user or assistant message ends the search, anything else is
  stepped over.
\<close>

fun collect_responses :: "tool_call list \<Rightarrow> message list \<Rightarrow> message list" where
  "collect_responses tcs [] = []"
| "collect_responses tcs (next_msg # rest) =
     (if is_tool next_msg then
        (if list_ex (\<lambda>tc. call_matches tc next_msg) tcs
         then next_msg # collect_responses tcs rest
         else collect_responses tcs rest)
      else if role next_msg = Some ''user'' \<or> role next_msg = Some ''assistant'' then []
      else collect_responses tcs rest)"

text \<open>The rebuilt tool message; \<^verbatim>\<open>tool_response["content"]\<close> raises \<^verbatim>\<open>KeyError\<close> without the key.\<close>

definition tool_msg :: "message \<Rightarrow> message option" where
  "tool_msg tool_response =
     (case content tool_response of
        None \<Rightarrow> None
      | Some c \<Rightarrow> Some \<lparr>role = Some ''tool'', content = Some c, tool_calls = None,
                       tool_call_id = tool_call_id tool_response, name = name tool_response\<rparr>)"

fun tool_msgs :: "message list \<Rightarrow> message list option" where
  "tool_msgs [] = Some []"
| "tool_msgs (r # rs) =
     (case tool_msg r of
        None \<Rightarrow> None
      | Some t \<Rightarrow> map_option ((#) t) (tool_msgs rs))"

definition assistant_msg :: "message \<Rightarrow> message" where
  "assistant_msg msg =
     \<lparr>role = Some ''assistant'',
      content = Some (case content msg of None \<Rightarrow> PyStr [] | Some c \<Rightarrow> c),
      tool_calls = tool_calls msg, tool_call_id = None, name = None\<rparr>"

text \<open>\<^verbatim>\<open>{"role": msg["role"], "content": msg["content"]}\<close>, a \<^verbatim>\<open>KeyError\<close> without either key.\<close>

definition plain_msg :: "message \<Rightarrow> message option" where
  "plain_msg msg =
     (case role msg of
        None \<Rightarrow> None
      | Some r \<Rightarrow>
          (case content msg of
             None \<Rightarrow> None
           | Some c \<Rightarrow> Some \<lparr>role = Some r, content = Some c, tool_calls = None,
                            tool_call_id = None, name = None\<rparr>))"

text \<open>
  The outer loop runs an index \<open>i\<close> over \<open>valid_messages\<close>; the model recurses on the
  messages from \<open>i\<close> on. After a complete chain \<open>i\<close> advances by
  \<^verbatim>\<open>len(tool_responses)\<close> and then by one; after an incomplete one it advances over the tool
  messages that follow directly, and then by one.
\<close>

function pass2 :: "message list \<Rightarrow> message list option" where
  "pass2 [] = Some []"
| "pass2 (msg # rest) =
     (if has_tool_calls msg then
        (let tcs = the (tool_calls msg);
             tool_responses = collect_responses tcs rest
         in if length tool_responses = length tcs then
              (case tool_msgs tool_responses of
                 None \<Rightarrow> None
               | Some ts \<Rightarrow>
                   map_option (\<lambda>final. assistant_msg msg # ts @ final)
                     (pass2 (drop (length tool_responses) rest)))
            else pass2 (dropWhile is_tool rest))
      else if is_tool msg then pass2 rest
      else (case plain_msg msg of
              None \<Rightarrow> None
            | Some p \<Rightarrow> map_option ((#) p) (pass2 rest)))"
  by pat_completeness auto
termination
  by (relation "measure length") (auto simp: less_Suc_eq_le length_dropWhile_le)

definition validate_chain :: "message list \<Rightarrow> message list option" where
  "validate_chain history_messages =
     (case pass1 [] history_messages of
        None \<Rightarrow> None
      | Some valid_messages \<Rightarrow> pass2 valid_messages)"

text \<open>What \<^verbatim>\<open>messages.extend(final_messages)\<close> adds: nothing when an exception was raised.\<close>

definition final_messages :: "message list \<Rightarrow> message list" where
  "final_messages history_messages =
     (case validate_chain history_messages of None \<Rightarrow> [] | Some final \<Rightarrow> final)"

section \<open>The history window of \<open>SessionService.get_history\<close>\<close>

text \<open>
  A row of the table \<^verbatim>\<open>chat_messages\<close>. The database is the list of its rows in the order
  of \<^verbatim>\<open>(created_at, id)\<close>, oldest first; \<^verbatim>\<open>json.loads\<close> is a parameter \<open>loads\<close>, which
  either raises \<^verbatim>\<open>JSONDecodeError\<close> or returns a dict or some other JSON value.
\<close>

record chat_message =
  cm_session_id :: string
  cm_role :: string
  cm_content :: string

datatype pyobj = Dict message | NonDict

datatype loads_result = JSONDecodeError | Parsed pyobj

text \<open>
  The test of the expansion loop (session_service.py, lines 117-136): a value that is not
  a dict has no \<^verbatim>\<open>get\<close> (\<^verbatim>\<open>AttributeError\<close>), and both exceptions end the loop.
\<close>

definition chain_open :: "(string \<Rightarrow> loads_result) \<Rightarrow> chat_message \<Rightarrow> bool" where
  "chain_open loads oldest_message_model =
     (case loads (cm_content oldest_message_model) of
        JSONDecodeError \<Rightarrow> False
      | Parsed NonDict \<Rightarrow> False
      | Parsed (Dict content_dict) \<Rightarrow>
          role content_dict = Some ''tool'' \<or>
          (role content_dict = Some ''assistant'' \<and> tool_calls content_dict \<noteq> None))"

text \<open>
  The loop \<^verbatim>\<open>while oldest_message_in_window_index < len(recent_messages_desc) - 1\<close>;
  \<^verbatim>\<open>final_messages_desc[-1]\<close> of an empty list raises \<^verbatim>\<open>IndexError\<close>, which nothing catches.
\<close>

function expand_window ::
  "(string \<Rightarrow> loads_result) \<Rightarrow> chat_message list \<Rightarrow> chat_message list \<Rightarrow> nat \<Rightarrow>
   chat_message list option" where
  "expand_window loads recent_messages_desc final_messages_desc idx =
     (if idx + 1 < length recent_messages_desc then
        (if final_messages_desc = [] then None
         else if chain_open loads (last final_messages_desc) then
           expand_window loads recent_messages_desc
             (final_messages_desc @ [recent_messages_desc ! (idx + 1)]) (idx + 1)
         else Some final_messages_desc)
      else Some final_messages_desc)"
  by pat_completeness auto
termination
  by (relation "measure (\<lambda>(loads, recent, final, idx). length recent - idx)") auto

declare expand_window.simps [simp del]

text \<open>
  Steps 1 to 3 of \<open>get_history\<close>. The limit \<open>max_history_messages\<close> is a natural number
  (the query rejects a negative \<^verbatim>\<open>LIMIT\<close>). Where the index is computed the truncated list
  is not empty, so \<^verbatim>\<open>len(truncated_desc) - 1\<close> does not go below zero.
\<close>

definition query_recent :: "nat \<Rightarrow> string \<Rightarrow> chat_message list \<Rightarrow> chat_message list" where
  "query_recent max_history_messages sid db =
     take (max_history_messages * 2) (rev (filter (\<lambda>m. cm_session_id m = sid) db))"

definition final_messages_desc ::
  "(string \<Rightarrow> loads_result) \<Rightarrow> nat \<Rightarrow> string \<Rightarrow> chat_message list \<Rightarrow>
   chat_message list option" where
  "final_messages_desc loads max_history_messages sid db =
     (let recent_messages_desc = query_recent max_history_messages sid db
      in if recent_messages_desc = [] then Some []
         else
           (let truncated_desc =
                  (if length recent_messages_desc > max_history_messages
                   then take max_history_messages recent_messages_desc
                   else recent_messages_desc)
            in expand_window loads recent_messages_desc truncated_desc
                 (length truncated_desc - 1)))"

text \<open>The last loop (lines 148-155): a row that does not parse is kept as a fallback dict.\<close>

definition history_dict :: "(string \<Rightarrow> loads_result) \<Rightarrow> chat_message \<Rightarrow> pyobj" where
  "history_dict loads msg =
     (case loads (cm_content msg) of
        JSONDecodeError \<Rightarrow>
          Dict \<lparr>role = Some (cm_role msg), content = Some (PyStr (cm_content msg)),
                tool_calls = None, tool_call_id = None, name = None\<rparr>
      | Parsed message_dict \<Rightarrow> message_dict)"

definition get_history ::
  "(string \<Rightarrow> loads_result) \<Rightarrow> nat \<Rightarrow> string \<Rightarrow> chat_message list \<Rightarrow> pyobj list option" where
  "get_history loads max_history_messages sid db =
     (if sid = [] then Some []
      else map_option (\<lambda>final. map (history_dict loads) (rev final))
             (final_messages_desc loads max_history_messages sid db))"

text \<open>
  \<^verbatim>\<open>ChatMessage(session_id=session_id, role=msg.get("role", "unknown"),
  content=json.dumps(msg))\<close>; \<^verbatim>\<open>json.dumps\<close> is the parameter \<open>dumps\<close>.
\<close>

definition chat_message_of :: "(message \<Rightarrow> string) \<Rightarrow> string \<Rightarrow> message \<Rightarrow> chat_message" where
  "chat_message_of dumps sid msg =
     \<lparr>cm_session_id = sid,
      cm_role = (case role msg of None \<Rightarrow> ''unknown'' | Some r \<Rightarrow> r),
      cm_content = dumps msg\<rparr>"

text \<open>
  A call that may raise returns an \<open>outcome\<close>; \<open>Raised e\<close> carries \<^verbatim>\<open>str(e)\<close>.
\<close>

datatype 'a outcome = Raised string | Returned 'a

text \<open>
  \<open>update_history\<close> (session_service.py, lines 159-184). The rows go to the database in one
  transaction, \<^verbatim>\<open>db.add_all(db_messages)\<close> and \<^verbatim>\<open>await db.commit()\<close>. Whether the database
  takes them is the parameter \<open>commit_ok\<close>: the table declares \<^verbatim>\<open>session_id String(255)\<close> and
  \<^verbatim>\<open>role String(50)\<close> (models.py), the request model puts no bound on the session id, and
  the connection can fail. A commit that fails raises and stores none of the rows.
\<close>

definition update_history ::
  "(chat_message list \<Rightarrow> bool) \<Rightarrow> (message \<Rightarrow> string) \<Rightarrow> string \<Rightarrow> message list \<Rightarrow>
   chat_message list \<Rightarrow> chat_message list outcome" where
  "update_history commit_ok dumps sid new_messages db =
     (if sid = [] \<or> new_messages = [] then Returned db
      else (let db_messages = map (chat_message_of dumps sid) new_messages
            in if commit_ok db_messages then Returned (db @ db_messages)
               else Raised ''commit failed''))"

text \<open>
  \<open>save_to_memory\<close> (llm_router.py, lines 212-218) logs an exception of \<open>update_history\<close> and
  returns; the database is then as it was.
\<close>

definition save_to_memory ::
  "(chat_message list \<Rightarrow> bool) \<Rightarrow> (message \<Rightarrow> string) \<Rightarrow> string \<Rightarrow> message list \<Rightarrow>
   chat_message list \<Rightarrow> chat_message list" where
  "save_to_memory commit_ok dumps sid messages db =
     (case update_history commit_ok dumps sid messages db of
        Raised e \<Rightarrow> db
      | Returned db' \<Rightarrow> db')"

section \<open>Building the context\<close>

text \<open>
  The validator reads every history entry with \<^verbatim>\<open>msg.get\<close>; an entry that is not a dict
  raises \<^verbatim>\<open>AttributeError\<close>. Any exception between reading the history and the end of the
  second pass leaves \<open>messages\<close> without history. The endpoint always passes a database
  session, so the test \<^verbatim>\<open>if db\<close> has no branch here.
\<close>

fun dicts_of :: "pyobj list \<Rightarrow> message list option" where
  "dicts_of [] = Some []"
| "dicts_of (NonDict # xs) = None"
| "dicts_of (Dict d # xs) = map_option ((#) d) (dicts_of xs)"

definition plain :: "string \<Rightarrow> string \<Rightarrow> message" where
  "plain r c = \<lparr>role = Some r, content = Some (PyStr c), tool_calls = None,
                tool_call_id = None, name = None\<rparr>"

definition format_messages_with_memory ::
  "(string \<Rightarrow> loads_result) \<Rightarrow> nat \<Rightarrow> string \<Rightarrow> string \<Rightarrow> string option \<Rightarrow>
   chat_message list \<Rightarrow> message list" where
  "format_messages_with_memory loads max_history_messages query sid system_prompt db =
     (let messages = (if truthy system_prompt then [plain ''system'' (the system_prompt)] else []);
          history =
            (case get_history loads max_history_messages sid db of
               None \<Rightarrow> []
             | Some history_dicts \<Rightarrow>
                 (case dicts_of history_dicts of
                    None \<Rightarrow> []
                  | Some history_messages \<Rightarrow> final_messages history_messages))
      in messages @ history @ [plain ''user'' query])"

section \<open>The model service\<close>

text \<open>Literals outside ASCII are given as their UTF-8 bytes.\<close>

record function_call =
  fc_name :: string
  fc_arguments :: string

record model_tool_call =
  mtc_id :: string
  mtc_function :: function_call

record model_message =
  mm_content :: "string option"
  mm_tool_calls :: "model_tool_call list option"

text \<open>
  \<open>config_ok\<close>: the settings hold an API key and a base URL (\<^verbatim>\<open>_get_client\<close>).
  \<open>chat_decision\<close> and \<open>chat_summary\<close> stand for the \<^verbatim>\<open>try\<close> blocks around
  \<^verbatim>\<open>client.chat.completions.create\<close> in the two methods: the request, picking
  \<^verbatim>\<open>response.choices[0].message\<close> and the usage log. The tool schemas sent with the decision
  request are fixed by the registry and left implicit.
\<close>

record llm_service =
  config_ok :: bool
  chat_decision :: "message list \<Rightarrow> model_message outcome"
  chat_summary :: "message list \<Rightarrow> string option outcome"

definition config_missing :: string where
  "config_missing =
    [CHR 0x4C, CHR 0x4C, CHR 0x4D, CHR 0xE6, CHR 0x9C, CHR 0x8D, CHR 0xE5, CHR 0x8A,
     CHR 0xA1, CHR 0xE9, CHR 0x85, CHR 0x8D, CHR 0xE7, CHR 0xBD, CHR 0xAE, CHR 0xE7,
     CHR 0xBC, CHR 0xBA, CHR 0xE5, CHR 0xA4, CHR 0xB1]"

definition apology :: string where
  "apology =
    [CHR 0xE6, CHR 0x8A, CHR 0xB1, CHR 0xE6, CHR 0xAD, CHR 0x89, CHR 0xEF, CHR 0xBC,
     CHR 0x8C, CHR 0xE6, CHR 0x88, CHR 0x91, CHR 0xE5, CHR 0x9C, CHR 0xA8, CHR 0xE6,
     CHR 0x80, CHR 0xBB, CHR 0xE7, CHR 0xBB, CHR 0x93, CHR 0xE5, CHR 0xB7, CHR 0xA5,
     CHR 0xE5, CHR 0x85, CHR 0xB7, CHR 0xE6, CHR 0x89, CHR 0xA7, CHR 0xE8, CHR 0xA1,
     CHR 0x8C, CHR 0xE7, CHR 0xBB, CHR 0x93, CHR 0xE6, CHR 0x9E, CHR 0x9C, CHR 0xE6,
     CHR 0x97, CHR 0xB6, CHR 0xE9, CHR 0x81, CHR 0x87, CHR 0xE5, CHR 0x88, CHR 0xB0,
     CHR 0xE4, CHR 0xBA, CHR 0x86, CHR 0xE4, CHR 0xB8, CHR 0x80, CHR 0xE4, CHR 0xB8,
     CHR 0xAA, CHR 0xE9, CHR 0x97, CHR 0xAE, CHR 0xE9, CHR 0xA2, CHR 0x98, CHR 0xE3,
     CHR 0x80, CHR 0x82]"

definition no_answer :: string where
  "no_answer =
    [CHR 0xE6, CHR 0x8A, CHR 0xB1, CHR 0xE6, CHR 0xAD, CHR 0x89, CHR 0xEF, CHR 0xBC,
     CHR 0x8C, CHR 0xE6, CHR 0x88, CHR 0x91, CHR 0xE6, CHR 0x97, CHR 0xA0, CHR 0xE6,
     CHR 0xB3, CHR 0x95, CHR 0xE5, CHR 0x9B, CHR 0x9E, CHR 0xE7, CHR 0xAD, CHR 0x94,
     CHR 0xE3, CHR 0x80, CHR 0x82]"

definition get_model_decision :: "llm_service \<Rightarrow> message list \<Rightarrow> model_message outcome" where
  "get_model_decision svc messages =
     (if \<not> config_ok svc then Raised config_missing else chat_decision svc messages)"

definition get_summary_from_tool_results ::
  "llm_service \<Rightarrow> message list \<Rightarrow> string option outcome" where
  "get_summary_from_tool_results svc messages_for_summary =
     (if \<not> config_ok svc then Raised config_missing
      else (case chat_summary svc messages_for_summary of
              Raised e \<Rightarrow> Returned (Some apology)
            | Returned summary_content \<Rightarrow> Returned summary_content))"

section \<open>Tool dispatch\<close>

text \<open>
  The registry and what \<open>execute_tool\<close> calls from outside the repository:
  \<open>get_tool\<close> is \<^verbatim>\<open>tool_registry.get_tool\<close>, \<open>json_loads\<close> is \<^verbatim>\<open>json.loads\<close> on the
  argument string, \<open>empty_args\<close> is \<^verbatim>\<open>{}\<close>, a tool maps its arguments to a value or raises
  (also when the arguments do not fit its signature), and \<open>str_of\<close> is \<^verbatim>\<open>str\<close>.
  \<open>Raised\<close> stands for the exceptions that \<^verbatim>\<open>except Exception\<close> catches; a \<^verbatim>\<open>str\<close> that
  raises counts as the tool raising.
\<close>

record ('a, 'r) tools =
  get_tool :: "string \<Rightarrow> ('a \<Rightarrow> 'r outcome) option"
  json_loads :: "string \<Rightarrow> 'a outcome"
  empty_args :: 'a
  str_of :: "'r \<Rightarrow> string"

definition not_found_msg :: "string \<Rightarrow> string" where
  "not_found_msg tool_name =
    [CHR 0xE9, CHR 0x94, CHR 0x99, CHR 0xE8, CHR 0xAF, CHR 0xAF, CHR 0x3A, CHR 0x20,
     CHR 0xE6, CHR 0x89, CHR 0xBE, CHR 0xE4, CHR 0xB8, CHR 0x8D, CHR 0xE5, CHR 0x88,
     CHR 0xB0, CHR 0xE5, CHR 0x90, CHR 0x8D, CHR 0xE4, CHR 0xB8, CHR 0xBA, CHR 0x20,
     CHR 0x27] @ tool_name @
    [CHR 0x27, CHR 0x20, CHR 0xE7, CHR 0x9A, CHR 0x84, CHR 0xE5, CHR 0xB7, CHR 0xA5,
     CHR 0xE5, CHR 0x85, CHR 0xB7, CHR 0xE3, CHR 0x80, CHR 0x82]"

definition failed_msg :: "string \<Rightarrow> string" where
  "failed_msg e =
    [CHR 0xE6, CHR 0x89, CHR 0xA7, CHR 0xE8, CHR 0xA1, CHR 0x8C, CHR 0xE5, CHR 0xA4,
     CHR 0xB1, CHR 0xE8, CHR 0xB4, CHR 0xA5, CHR 0x3A, CHR 0x20] @ e"

text \<open>\<^verbatim>\<open>json.loads(tool_args_str) if tool_args_str else {}\<close>\<close>

definition parse_arguments :: "('a, 'r) tools \<Rightarrow> string \<Rightarrow> 'a outcome" where
  "parse_arguments reg tool_args_str =
     (if tool_args_str = [] then Returned (empty_args reg) else json_loads reg tool_args_str)"

definition tool_result :: "model_tool_call \<Rightarrow> string \<Rightarrow> message" where
  "tool_result tc c =
     \<lparr>role = Some ''tool'', content = Some (PyStr c), tool_calls = None,
      tool_call_id = Some (mtc_id tc), name = Some (fc_name (mtc_function tc))\<rparr>"

definition execute_tool :: "('a, 'r) tools \<Rightarrow> model_tool_call \<Rightarrow> message" where
  "execute_tool reg tc =
     (let tool_name = fc_name (mtc_function tc)
      in case get_tool reg tool_name of
           None \<Rightarrow> tool_result tc (not_found_msg tool_name)
         | Some tool_to_call \<Rightarrow>
             (case parse_arguments reg (fc_arguments (mtc_function tc)) of
                Raised e \<Rightarrow> tool_result tc (failed_msg e)
              | Returned tool_args \<Rightarrow>
                  (case tool_to_call tool_args of
                     Raised e \<Rightarrow> tool_result tc (failed_msg e)
                   | Returned result \<Rightarrow> tool_result tc (str_of reg result))))"

text \<open>
  \<^verbatim>\<open>asyncio.gather\<close> belongs to the standard library. The tasks finish in the order of
  their delays; each result arrives tagged with the position of its task among the
  arguments, and the returned list holds the results by that position.
\<close>

definition gather :: "(nat \<Rightarrow> nat) \<Rightarrow> 'b list \<Rightarrow> 'b list" where
  "gather delay tasks =
     (let completion_order = sort_key delay [0..<length tasks];
          arrivals = map (\<lambda>k. (k, tasks ! k)) completion_order
      in map snd (sort_key fst arrivals))"

section \<open>One turn: \<open>llm_with_tools\<close>\<close>

record ('a, 'r) env =
  loads :: "string \<Rightarrow> loads_result"
  dumps :: "message \<Rightarrow> string"
  max_history_messages :: nat
  llm :: llm_service
  registry :: "('a, 'r) tools"
  delay :: "nat \<Rightarrow> nat"
  commit_ok :: "chat_message list \<Rightarrow> bool"

record request =
  rq_query :: string
  rq_session_id :: string
  rq_system_prompt :: "string option"

record 'a response =
  rs_success :: bool
  rs_response :: string
  rs_session_id :: string
  rs_tools_called :: "(string \<times> 'a) list"

datatype http_error = HTTPException nat

text \<open>
  The debug lines slice \<^verbatim>\<open>msg.get('content', '')\<close> of every message they print, a
  \<^verbatim>\<open>TypeError\<close> on a null content.
\<close>

definition logs_raise :: "message list \<Rightarrow> bool" where
  "logs_raise msgs = list_ex (\<lambda>msg. content msg = Some PyNone) msgs"

definition tool_call_info :: "model_tool_call \<Rightarrow> tool_call" where
  "tool_call_info tc =
     \<lparr>tc_id = Some (mtc_id tc), tc_type = Some ''function'',
      tc_function = Some \<lparr>fn_name = Some (fc_name (mtc_function tc)),
                          fn_arguments = Some (fc_arguments (mtc_function tc))\<rparr>\<rparr>"

definition final_msg :: "string option \<Rightarrow> message" where
  "final_msg final_answer =
     \<lparr>role = Some ''assistant'',
      content = Some (case final_answer of None \<Rightarrow> PyNone | Some a \<Rightarrow> PyStr a),
      tool_calls = None, tool_call_id = None, name = None\<rparr>"

text \<open>
  \<open>_handle_tool_calls\<close>. Iterating \<^verbatim>\<open>model_message.tool_calls\<close> raises \<^verbatim>\<open>TypeError\<close> when it
  is \<^verbatim>\<open>None\<close>; the caller only enters with a non-empty list.
\<close>

definition assistant_message_with_tool_calls ::
  "model_message \<Rightarrow> model_tool_call list \<Rightarrow> message" where
  "assistant_message_with_tool_calls model_message calls =
     \<lparr>role = Some ''assistant'',
      content = Some (PyStr (case mm_content model_message of None \<Rightarrow> [] | Some c \<Rightarrow> c)),
      tool_calls = Some (map tool_call_info calls), tool_call_id = None, name = None\<rparr>"

definition messages_for_summary ::
  "message list \<Rightarrow> message \<Rightarrow> message \<Rightarrow> message list \<Rightarrow> message list" where
  "messages_for_summary messages_for_llm current_user_message assistant_message tool_results =
     filter (\<lambda>msg. role msg = Some ''system'') messages_for_llm @
     [current_user_message, assistant_message] @ tool_results"

text \<open>
  \<^verbatim>\<open>tasks = [execute_tool(tc, session_id) for tc in model_message.tool_calls]\<close> and
  \<^verbatim>\<open>tool_results = await asyncio.gather(*tasks)\<close>.
\<close>

definition dispatch :: "('a, 'r) env \<Rightarrow> model_tool_call list \<Rightarrow> message list" where
  "dispatch e calls = gather (delay e) (map (execute_tool (registry e)) calls)"

definition handle_tool_calls ::
  "('a, 'r) env \<Rightarrow> model_message \<Rightarrow> message list \<Rightarrow> message \<Rightarrow>
   (string option \<times> message list) outcome" where
  "handle_tool_calls e model_message messages_for_llm current_user_message =
     (case mm_tool_calls model_message of
        None \<Rightarrow> Raised ''TypeError''
      | Some calls \<Rightarrow>
          (let assistant_message = assistant_message_with_tool_calls model_message calls;
               tool_results = dispatch e calls;
               for_summary = messages_for_summary messages_for_llm current_user_message
                               assistant_message tool_results
           in if logs_raise for_summary then Raised ''TypeError''
              else (case get_summary_from_tool_results (llm e) for_summary of
                      Raised err \<Rightarrow> Raised err
                    | Returned final_answer \<Rightarrow>
                        Returned (final_answer,
                          [current_user_message, assistant_message] @
                          tool_results @ [final_msg final_answer]))))"

definition handle_direct_answer ::
  "model_message \<Rightarrow> message \<Rightarrow> string option \<times> message list" where
  "handle_direct_answer model_message current_user_message =
     (let final_answer = (case mm_content model_message of
                            None \<Rightarrow> no_answer
                          | Some c \<Rightarrow> if c = [] then no_answer else c)
      in (Some final_answer, [current_user_message, final_msg (Some final_answer)]))"

text \<open>The list \<open>tools_called\<close> of the response parses every argument string once more.\<close>

fun tools_called :: "('a, 'r) tools \<Rightarrow> model_tool_call list \<Rightarrow> (string \<times> 'a) list outcome" where
  "tools_called reg [] = Returned []"
| "tools_called reg (tc # tcs) =
     (case parse_arguments reg (fc_arguments (mtc_function tc)) of
        Raised err \<Rightarrow> Raised err
      | Returned args \<Rightarrow>
          (case tools_called reg tcs of
             Raised err \<Rightarrow> Raised err
           | Returned rest \<Rightarrow> Returned ((fc_name (mtc_function tc), args) # rest)))"

definition requested_calls :: "model_message \<Rightarrow> model_tool_call list" where
  "requested_calls model_message =
     (case mm_tool_calls model_message of None \<Rightarrow> [] | Some calls \<Rightarrow> calls)"

text \<open>
  The endpoint: the result and the database after the turn. Every exception inside the
  \<^verbatim>\<open>try\<close> becomes \<^verbatim>\<open>HTTPException(500)\<close> (its detail text is not modelled);
  a failed commit is swallowed by \<open>save_to_memory\<close> and does not fail the turn.
  \<open>get_model_decision\<close> never returns \<^verbatim>\<open>None\<close> (it would raise at its own debug line), so
  the test \<^verbatim>\<open>if not model_decision\<close> has no branch here.
\<close>

definition turn_messages :: "('a, 'r) env \<Rightarrow> request \<Rightarrow> chat_message list \<Rightarrow> message list" where
  "turn_messages e req db =
     format_messages_with_memory (loads e) (max_history_messages e)
       (rq_query req) (rq_session_id req) (rq_system_prompt req) db"

definition llm_with_tools ::
  "('a, 'r) env \<Rightarrow> request \<Rightarrow> chat_message list \<Rightarrow>
   (http_error + 'a response) \<times> chat_message list" where
  "llm_with_tools e req db =
     (let sid = rq_session_id req;
          current_user_message = plain ''user'' (rq_query req);
          messages = turn_messages e req db
      in if logs_raise messages then (Inl (HTTPException 500), db)
         else
           (case get_model_decision (llm e) messages of
              Raised err \<Rightarrow> (Inl (HTTPException 500), db)
            | Returned model_decision \<Rightarrow>
                (case (if requested_calls model_decision \<noteq> []
                       then handle_tool_calls e model_decision messages current_user_message
                       else Returned (handle_direct_answer model_decision current_user_message)) of
                   Raised err \<Rightarrow> (Inl (HTTPException 500), db)
                 | Returned (final_answer, messages_to_save) \<Rightarrow>
                     (let db' = save_to_memory (commit_ok e) (dumps e) sid messages_to_save db
                      in case tools_called (registry e) (requested_calls model_decision) of
                           Raised err \<Rightarrow> (Inl (HTTPException 500), db')
                         | Returned called \<Rightarrow>
                             (case final_answer of
                                None \<Rightarrow> (Inl (HTTPException 500), db')
                              | Some answer \<Rightarrow>
                                  (Inr \<lparr>rs_success = True, rs_response = answer,
                                        rs_session_id = sid, rs_tools_called = called\<rparr>,
                                   db'))))))"

section \<open>Notions used in the statements\<close>

subsection \<open>The shape of a validated sequence\<close>

text \<open>
  The messages the second pass writes: the rebuilt assistant message of a chain, a rebuilt
  tool message answering an entry of a given \<open>tool_calls\<close> list, and a plain message with
  its two keys.
\<close>

definition emitted_assistant :: "message \<Rightarrow> bool" where
  "emitted_assistant msg \<longleftrightarrow>
     has_tool_calls msg \<and> content msg \<noteq> None \<and> tool_call_id msg = None \<and> name msg = None"

definition emitted_tool :: "tool_call list \<Rightarrow> message \<Rightarrow> bool" where
  "emitted_tool tcs t \<longleftrightarrow>
     is_tool t \<and> content t \<noteq> None \<and> tool_calls t = None \<and>
     list_ex (\<lambda>tc. call_matches tc t) tcs"

definition emitted_plain :: "message \<Rightarrow> bool" where
  "emitted_plain msg \<longleftrightarrow>
     role msg \<noteq> None \<and> \<not> is_tool msg \<and> content msg \<noteq> None \<and> tool_calls msg = None \<and>
     tool_call_id msg = None \<and> name msg = None"

text \<open>
  A sequence is assembled when it consists of plain messages and of chains: an assistant
  message with \<open>n\<close> entries followed directly by \<open>n\<close> tool messages, each answering one of
  the entries.
\<close>

function assembled :: "message list \<Rightarrow> bool" where
  "assembled [] = True"
| "assembled (msg # rest) =
     (if has_tool_calls msg then
        emitted_assistant msg \<and> length (the (tool_calls msg)) \<le> length rest \<and>
        list_all (emitted_tool (the (tool_calls msg)))
          (take (length (the (tool_calls msg))) rest) \<and>
        assembled (drop (length (the (tool_calls msg))) rest)
      else emitted_plain msg \<and> assembled rest)"
  by pat_completeness auto
termination
  by (relation "measure length") auto

subsection \<open>The specification's wording\<close>

text \<open>
  Invariant I2 asks for one tool message per entry of \<open>tool_calls\<close>; the second pass is said
  to emit the tool results in the order of \<open>tool_calls\<close>; the window builder is said to
  expand over an assistant message with non-empty \<open>tool_calls\<close>.
\<close>

definition spec_one_response_per_call :: "tool_call list \<Rightarrow> message list \<Rightarrow> bool" where
  "spec_one_response_per_call tcs responses =
     list_all (\<lambda>tc. length (filter (call_matches tc) responses) = 1) tcs"

definition spec_every_call_answered :: "tool_call list \<Rightarrow> message list \<Rightarrow> bool" where
  "spec_every_call_answered tcs responses =
     list_all (\<lambda>tc. list_ex (call_matches tc) responses) tcs"


definition spec_chain_open :: "(string \<Rightarrow> loads_result) \<Rightarrow> chat_message \<Rightarrow> bool" where
  "spec_chain_open ld m =
     (case ld (cm_content m) of
        JSONDecodeError \<Rightarrow> False
      | Parsed NonDict \<Rightarrow> False
      | Parsed (Dict d) \<Rightarrow>
          role d = Some ''tool'' \<or>
          (role d = Some ''assistant'' \<and> tool_calls d \<noteq> None \<and> tool_calls d \<noteq> Some []))"

section \<open>Concrete histories and services\<close>

definition ex_call_a :: tool_call where
  "ex_call_a = \<lparr>tc_id = Some ''call_a'', tc_type = Some ''function'',
      tc_function = Some \<lparr>fn_name = Some ''calculate'', fn_arguments = Some ''{}''\<rparr>\<rparr>"

definition ex_call_b :: tool_call where
  "ex_call_b = \<lparr>tc_id = Some ''call_b'', tc_type = Some ''function'',
      tc_function = Some \<lparr>fn_name = Some ''get_current_datetime'',
                          fn_arguments = Some ''{}''\<rparr>\<rparr>"

definition ex_assistant :: message where
  "ex_assistant = \<lparr>role = Some ''assistant'', content = Some (PyStr []),
      tool_calls = Some [ex_call_a, ex_call_b], tool_call_id = None, name = None\<rparr>"

definition ex_result_a :: message where
  "ex_result_a = \<lparr>role = Some ''tool'', content = Some (PyStr ''4''), tool_calls = None,
      tool_call_id = Some ''call_a'', name = Some ''calculate''\<rparr>"

definition ex_result_b :: message where
  "ex_result_b = \<lparr>role = Some ''tool'', content = Some (PyStr ''noon''), tool_calls = None,
      tool_call_id = Some ''call_b'', name = Some ''get_current_datetime''\<rparr>"

text \<open>Stored rows of session \<open>s\<close> and a parser that knows their JSON texts.\<close>

definition json_user :: string where
  \<open>json_user = ''{"role": "user", "content": "hi"}''\<close>

definition json_answer :: string where
  \<open>json_answer = ''{"role": "assistant", "content": "hello"}''\<close>

definition json_no_calls :: string where
  \<open>json_no_calls = ''{"role": "assistant", "content": "", "tool_calls": []}''\<close>

definition json_calls :: string where
  \<open>json_calls = ''{"role": "assistant", "content": "", "tool_calls": [{"id": "call_a", "type": "function", "function": {"name": "calculate", "arguments": "{}"}}]}''\<close>

definition json_tool :: string where
  \<open>json_tool = ''{"tool_call_id": "call_a", "role": "tool", "name": "calculate", "content": "4"}''\<close>

definition json_bad :: string where
  \<open>json_bad = ''{"role": "user", "content": ''\<close>

definition ex_loads :: "string \<Rightarrow> loads_result" where
  "ex_loads s =
     (if s = json_user then Parsed (Dict (plain ''user'' ''hi''))
      else if s = json_answer then Parsed (Dict (plain ''assistant'' ''hello''))
      else if s = json_no_calls then
        Parsed (Dict \<lparr>role = Some ''assistant'', content = Some (PyStr []),
                      tool_calls = Some [], tool_call_id = None, name = None\<rparr>)
      else if s = json_calls then
        Parsed (Dict \<lparr>role = Some ''assistant'', content = Some (PyStr []),
                      tool_calls = Some [ex_call_a], tool_call_id = None, name = None\<rparr>)
      else if s = json_tool then Parsed (Dict ex_result_a)
      else JSONDecodeError)"

definition row :: "string \<Rightarrow> string \<Rightarrow> chat_message" where
  "row r c = \<lparr>cm_session_id = ''s'', cm_role = r, cm_content = c\<rparr>"

definition db_chain :: "chat_message list" where
  "db_chain = [row ''user'' json_user, row ''assistant'' json_calls, row ''tool'' json_tool,
               row ''assistant'' json_answer]"

definition db_no_calls :: "chat_message list" where
  "db_no_calls = [row ''user'' json_user, row ''assistant'' json_no_calls,
                  row ''user'' json_user]"

definition db_plain :: "chat_message list" where
  "db_plain = [row ''user'' json_user, row ''assistant'' json_answer,
               row ''user'' json_user, row ''assistant'' json_answer]"

definition db_bad :: "chat_message list" where
  "db_bad = [row ''user'' json_bad]"

text \<open>
  A registry with the tool \<open>calculate\<close>, a model that asks for an unknown tool and for
  \<open>calculate\<close>, whose summary request fails, and a model that cannot be reached.
\<close>

definition ex_tools :: "(string, string) tools" where
  \<open>ex_tools =
     \<lparr>get_tool = (\<lambda>n. if n = ''calculate''
                       then Some (\<lambda>args. if args = ''2+2'' then Returned ''4''
                                          else if args = ''1/0'' then Raised ''division by zero''
                                          else Raised ''invalid expression'')
                       else None),
      json_loads = (\<lambda>s. if s = ''{"expression": "2+2"}'' then Returned ''2+2''
                         else if s = ''{"expression": "1/0"}'' then Returned ''1/0''
                         else Raised ''Expecting value''),
      empty_args = [],
      str_of = (\<lambda>r. r)\<rparr>\<close>

text \<open>
  Calls to \<open>calculate\<close> whose argument string does not parse and whose expression makes
  the tool raise.
\<close>

definition ex_call_unparsed :: model_tool_call where
  "ex_call_unparsed =
     \<lparr>mtc_id = ''call_3'',
      mtc_function = \<lparr>fc_name = ''calculate'', fc_arguments = ''{expression''\<rparr>\<rparr>"

definition ex_call_raising :: model_tool_call where
  \<open>ex_call_raising =
     \<lparr>mtc_id = ''call_4'',
      mtc_function = \<lparr>fc_name = ''calculate'', fc_arguments = ''{"expression": "1/0"}''\<rparr>\<rparr>\<close>

definition ex_calls :: "model_tool_call list" where
  \<open>ex_calls =
     [\<lparr>mtc_id = ''call_1'',
       mtc_function = \<lparr>fc_name = ''unknown_tool'', fc_arguments = []\<rparr>\<rparr>,
      \<lparr>mtc_id = ''call_2'',
       mtc_function = \<lparr>fc_name = ''calculate'', fc_arguments = ''{"expression": "2+2"}''\<rparr>\<rparr>]\<close>

definition ex_decision :: model_message where
  "ex_decision = \<lparr>mm_content = None, mm_tool_calls = Some ex_calls\<rparr>"

definition ex_llm :: llm_service where
  "ex_llm = \<lparr>config_ok = True,
             chat_decision = (\<lambda>messages. Returned ex_decision),
             chat_summary = (\<lambda>messages. Raised ''timeout'')\<rparr>"

definition ex_llm_down :: llm_service where
  "ex_llm_down = \<lparr>config_ok = True,
                  chat_decision = (\<lambda>messages. Raised ''connection refused''),
                  chat_summary = (\<lambda>messages. Raised ''connection refused'')\<rparr>"

definition ex_dumps :: "message \<Rightarrow> string" where
  "ex_dumps msg =
     (case role msg of None \<Rightarrow> [] | Some r \<Rightarrow> r) @ '': '' @
     (case content msg of Some (PyStr c) \<Rightarrow> c | _ \<Rightarrow> []) @
     (case tool_calls msg of
        None \<Rightarrow> []
      | Some tcs \<Rightarrow>
          '' calls'' @
          concat (map (\<lambda>tc. '' '' @ (case tc_id tc of None \<Rightarrow> [] | Some i \<Rightarrow> i) @ ''='' @
                               (case tc_fname tc of None \<Rightarrow> [] | Some n \<Rightarrow> n)) tcs)) @
     (case tool_call_id msg of None \<Rightarrow> [] | Some i \<Rightarrow> '' answers '' @ i)"

text \<open>A database that enforces the declared column lengths.\<close>

definition column_limits :: "chat_message list \<Rightarrow> bool" where
  "column_limits rows =
     list_all (\<lambda>r. length (cm_session_id r) \<le> 255 \<and> length (cm_role r) \<le> 50) rows"

definition ex_env :: "llm_service \<Rightarrow> (string, string) env" where
  "ex_env svc = \<lparr>loads = ex_loads, dumps = ex_dumps, max_history_messages = 2, llm = svc,
                 registry = ex_tools, delay = (\<lambda>k. 1 - k), commit_ok = column_limits\<rparr>"

definition ex_request :: "string \<Rightarrow> request" where
  "ex_request sid = \<lparr>rq_query = ''compute 2+2'', rq_session_id = sid,
                     rq_system_prompt = None\<rparr>"

section \<open>Properties of the chain validator\<close>

subsection \<open>The second pass writes an assembled sequence\<close>

lemma tool_msg_emitted:
  "tool_msg r = Some t \<Longrightarrow> is_tool r \<Longrightarrow> list_ex (\<lambda>tc. call_matches tc r) tcs \<Longrightarrow> emitted_tool tcs t"
  by (auto simp: tool_msg_def emitted_tool_def is_tool_def call_matches_def list_ex_iff
           split: option.splits)

lemma tool_msgs_emitted:
  "tool_msgs rs = Some ts \<Longrightarrow> list_all (\<lambda>r. is_tool r \<and> list_ex (\<lambda>tc. call_matches tc r) tcs) rs \<Longrightarrow>
   length ts = length rs \<and> list_all (emitted_tool tcs) ts"
  by (induction rs arbitrary: ts) (auto split: option.splits dest: tool_msg_emitted)

lemma collect_responses_all:
  "list_all (\<lambda>r. is_tool r \<and> list_ex (\<lambda>tc. call_matches tc r) tcs) (collect_responses tcs rest)"
  by (induction tcs rest rule: collect_responses.induct) auto

lemma pass2_assembled: "pass2 xs = Some ys \<Longrightarrow> assembled ys"
proof (induction xs arbitrary: ys rule: pass2.induct)
  case 1
  then show ?case by simp
next
  case (2 msg rest)
  show ?case
  proof (cases "has_tool_calls msg")
    case True
    define tcs where "tcs = the (tool_calls msg)"
    define rs where "rs = collect_responses tcs rest"
    show ?thesis
    proof (cases "length rs = length tcs")
      case complete: True
      from "2.prems" True complete obtain ts final where
        ts: "tool_msgs rs = Some ts" and
        final: "pass2 (drop (length rs) rest) = Some final" and
        ys: "ys = assistant_msg msg # ts @ final"
        by (auto simp: tcs_def rs_def Let_def split: option.splits)
      have "assembled final"
        using "2.IH"(1)[OF True tcs_def rs_def complete ts final] .
      moreover have "length ts = length tcs" "list_all (emitted_tool tcs) ts"
        using tool_msgs_emitted[OF ts collect_responses_all[of tcs rest, folded rs_def]] complete
        by auto
      moreover have "emitted_assistant (assistant_msg msg)" "the (tool_calls (assistant_msg msg)) = tcs"
        using True by (auto simp: emitted_assistant_def assistant_msg_def has_tool_calls_def tcs_def)
      ultimately show ?thesis
        by (simp add: ys emitted_assistant_def)
    next
      case False
      with "2.prems" True have "pass2 (dropWhile is_tool rest) = Some ys"
        by (simp add: tcs_def rs_def Let_def)
      then show ?thesis
        using "2.IH"(2)[OF True tcs_def rs_def False] by simp
    qed
  next
    case False
    show ?thesis
    proof (cases "is_tool msg")
      case True
      with False "2.prems" "2.IH"(3) show ?thesis by simp
    next
      case nt: False
      from "2.prems" False nt obtain p final where
        p: "plain_msg msg = Some p" and final: "pass2 rest = Some final" and ys: "ys = p # final"
        by (auto split: option.splits)
      have "assembled final" using "2.IH"(4)[OF False nt p final] .
      moreover have "emitted_plain p" "\<not> has_tool_calls p"
        using p nt by (auto simp: plain_msg_def emitted_plain_def is_tool_def has_tool_calls_def
                           split: option.splits)
      ultimately show ?thesis by (simp add: ys)
    qed
  qed
qed

lemma collect_responses_append:
  "list_all (emitted_tool tcs) ts \<Longrightarrow>
   collect_responses tcs (ts @ zs) = ts @ collect_responses tcs zs"
  by (induction ts) (auto simp: emitted_tool_def)

lemma has_tool_calls_not_tool: "has_tool_calls msg \<Longrightarrow> \<not> is_tool msg"
  by (auto simp: has_tool_calls_def is_tool_def)

lemma collect_responses_assembled: "assembled zs \<Longrightarrow> collect_responses tcs zs = []"
proof (induction zs rule: assembled.induct)
  case 1
  then show ?case by simp
next
  case (2 msg rest)
  then show ?case
    by (cases "has_tool_calls msg")
       (auto simp: has_tool_calls_def is_tool_def emitted_plain_def)
qed

lemma tool_msg_fixed: "emitted_tool tcs t \<Longrightarrow> tool_msg t = Some t"
  by (cases t) (auto simp: emitted_tool_def tool_msg_def is_tool_def)

lemma tool_msgs_fixed: "list_all (emitted_tool tcs) ts \<Longrightarrow> tool_msgs ts = Some ts"
  by (induction ts) (auto simp: tool_msg_fixed)

lemma assistant_msg_fixed: "emitted_assistant msg \<Longrightarrow> assistant_msg msg = msg"
  by (cases msg) (auto simp: emitted_assistant_def assistant_msg_def has_tool_calls_def)

lemma plain_msg_fixed: "emitted_plain msg \<Longrightarrow> plain_msg msg = Some msg"
  by (cases msg) (auto simp: emitted_plain_def plain_msg_def)

lemma pass2_fixed: "assembled ys \<Longrightarrow> pass2 ys = Some ys"
proof (induction ys rule: assembled.induct)
  case 1
  then show ?case by simp
next
  case (2 msg rest)
  show ?case
  proof (cases "has_tool_calls msg")
    case True
    define tcs where "tcs = the (tool_calls msg)"
    define ts where "ts = take (length tcs) rest"
    define zs where "zs = drop (length tcs) rest"
    from "2.prems" True have
      a: "emitted_assistant msg" and len: "length tcs \<le> length rest" and
      ts: "list_all (emitted_tool tcs) ts" and zs: "assembled zs"
      by (simp_all add: tcs_def ts_def zs_def)
    have rest: "rest = ts @ zs" by (simp add: ts_def zs_def)
    have lts: "length ts = length tcs" using len by (simp add: ts_def)
    have "collect_responses tcs rest = ts"
      by (simp add: rest collect_responses_append[OF ts] collect_responses_assembled[OF zs])
    moreover have "pass2 zs = Some zs"
      using "2.IH"(1)[OF True] zs by (simp add: tcs_def zs_def)
    ultimately show ?thesis
      using True lts by (simp add: tcs_def[symmetric] tool_msgs_fixed[OF ts]
          assistant_msg_fixed[OF a] rest)
  next
    case False
    with "2.prems" have p: "emitted_plain msg" and r: "assembled rest" by simp_all
    have "\<not> is_tool msg" using p by (simp add: emitted_plain_def)
    then show ?thesis
      using False "2.IH"(2)[OF False r] by (simp add: plain_msg_fixed[OF p])
  qed
qed

lemma has_valid_assistant_Cons:
  "has_valid_assistant prevs t \<Longrightarrow> has_valid_assistant (x # prevs) t"
  by (simp add: has_valid_assistant_def)

lemma pass1_tools_kept:
  "list_all (has_valid_assistant prevs) ts \<Longrightarrow>
   pass1 prevs (ts @ zs) = map_option ((@) ts) (pass1 (rev ts @ prevs) zs)"
proof (induction ts arbitrary: prevs)
  case Nil
  then show ?case by (simp add: option.map_ident)
next
  case (Cons t ts)
  then have "list_all (has_valid_assistant (t # prevs)) ts"
    by (auto simp: list_all_iff intro: has_valid_assistant_Cons)
  from Cons.IH[OF this] Cons.prems show ?case
    by (simp add: option.map_comp o_def)
qed

lemma pass1_fixed: "assembled ys \<Longrightarrow> pass1 prevs ys = Some ys"
proof (induction ys arbitrary: prevs rule: assembled.induct)
  case 1
  then show ?case by simp
next
  case (2 msg rest)
  show ?case
  proof (cases "has_tool_calls msg")
    case True
    define tcs where "tcs = the (tool_calls msg)"
    define ts where "ts = take (length tcs) rest"
    define zs where "zs = drop (length tcs) rest"
    from "2.prems" True have
      ts: "list_all (emitted_tool tcs) ts" and zs: "assembled zs"
      by (simp_all add: tcs_def ts_def zs_def)
    have rest: "rest = ts @ zs" by (simp add: ts_def zs_def)
    have "list_all (has_valid_assistant (msg # prevs)) ts"
      using ts True by (auto simp: list_all_iff emitted_tool_def has_valid_assistant_def tcs_def)
    from pass1_tools_kept[OF this, of zs]
    have "pass1 (msg # prevs) rest = map_option ((@) ts) (pass1 (rev ts @ msg # prevs) zs)"
      by (simp add: rest)
    moreover have "pass1 (rev ts @ msg # prevs) zs = Some zs"
      using "2.IH"(1)[OF True] zs by (simp add: tcs_def zs_def)
    ultimately show ?thesis
      using has_tool_calls_not_tool[OF True] by (simp add: rest)
  next
    case False
    with "2.prems" have p: "emitted_plain msg" and r: "assembled rest" by simp_all
    have "\<not> is_tool msg" using p by (simp add: emitted_plain_def)
    then show ?thesis using "2.IH"(2)[OF False r] by simp
  qed
qed

text \<open>
  Claim C10. The chain validator is idempotent. When the two passes return a sequence
  (no exception was raised), running them on that sequence returns it unchanged; and the
  history that reaches the context, which is empty after an exception, is a fixed point of
  the sanitization for every input sequence.
\<close>

theorem validate_chain_idempotent:
  "(validate_chain xs = Some ys \<longrightarrow> validate_chain ys = Some ys) \<and>
   final_messages (final_messages xs) = final_messages xs"
proof -
  have fixed: "validate_chain zs = Some ys' \<Longrightarrow> validate_chain ys' = Some ys'" for zs ys'
  proof -
    assume "validate_chain zs = Some ys'"
    then obtain valid where "pass2 valid = Some ys'"
      by (auto simp: validate_chain_def split: option.splits)
    then have "assembled ys'" by (rule pass2_assembled)
    then show ?thesis
      by (simp add: validate_chain_def pass1_fixed pass2_fixed)
  qed
  have "final_messages (final_messages xs) = final_messages xs"
  proof (cases "validate_chain xs")
    case None
    then show ?thesis by (simp add: final_messages_def validate_chain_def)
  next
    case (Some ys')
    with fixed[OF Some] show ?thesis by (simp add: final_messages_def)
  qed
  with fixed show ?thesis by blast
qed

theorem validate_chain_idempotent_witness:
  "validate_chain [ex_result_b, ex_assistant, ex_result_b, ex_result_a, plain ''user'' ''hi'']
     = Some [ex_assistant, ex_result_b, ex_result_a, plain ''user'' ''hi''] \<and>
   validate_chain [ex_assistant, ex_result_b, ex_result_a, plain ''user'' ''hi'']
     = Some [ex_assistant, ex_result_b, ex_result_a, plain ''user'' ''hi'']"
proof -
  have h: "validate_chain [ex_result_b, ex_assistant, ex_result_b, ex_result_a, plain ''user'' ''hi'']
     = Some [ex_assistant, ex_result_b, ex_result_a, plain ''user'' ''hi'']"
    by code_simp
  from validate_chain_idempotent
         [of "[ex_result_b, ex_assistant, ex_result_b, ex_result_a, plain ''user'' ''hi'']"
             "[ex_assistant, ex_result_b, ex_result_a, plain ''user'' ''hi'']"] h
  show ?thesis by blast
qed

subsection \<open>Chains with a missing response\<close>

text \<open>
  Claim C1. Invariant I2 asks that an assistant message with \<open>tool_calls\<close> stays only
  when every entry has its tool message, and the comment above the test in the second pass
  says the same. The test compares the number of collected tool messages with the number of
  entries. Two tool messages answering the first of two entries pass it: the chain is
  emitted although the second entry has no response. The second evaluation shows the
  index arithmetic after a complete chain: a system message standing between the
  assistant message and its tool messages is dropped.
\<close>

theorem incomplete_chain_emitted:
  "validate_chain [ex_assistant, ex_result_a, ex_result_a] =
     Some [ex_assistant, ex_result_a, ex_result_a] \<and>
   tool_calls ex_assistant = Some [ex_call_a, ex_call_b] \<and>
   \<not> spec_every_call_answered [ex_call_a, ex_call_b] [ex_result_a, ex_result_a] \<and>
   \<not> spec_one_response_per_call [ex_call_a, ex_call_b] [ex_result_a, ex_result_a] \<and>
   validate_chain [ex_assistant, plain ''system'' ''note'', ex_result_a, ex_result_b] =
     Some [ex_assistant, ex_result_a, ex_result_b]"
  by code_simp

subsection \<open>The order of the emitted tool messages\<close>






text \<open>
  Why the amended claim asks for one response per entry: the pass compares the number of
  collected responses with the number of entries, so a chain in which every entry is
  answered and one response stands twice is not emitted.
\<close>

lemma surplus_response_chain_dropped:
  "spec_every_call_answered [ex_call_a, ex_call_b] [ex_result_a, ex_result_b, ex_result_b] \<and>
   validate_chain [ex_assistant, ex_result_a, ex_result_b, ex_result_b] = Some []"
  by code_simp

section \<open>Properties of the history window\<close>

lemma expand_window_take:
  "idx < length recent \<Longrightarrow> final = take (Suc idx) recent \<Longrightarrow>
   \<exists>k. expand_window ld recent final idx = Some (take k recent) \<and>
       Suc idx \<le> k \<and> k \<le> length recent \<and>
       (\<forall>j. idx \<le> j \<and> Suc j < k \<longrightarrow> chain_open ld (recent ! j)) \<and>
       (k = length recent \<or> \<not> chain_open ld (recent ! (k - 1)))"
proof (induction ld recent final idx rule: expand_window.induct)
  case (1 ld recent final idx)
  have last: "last final = recent ! idx" and ne: "final \<noteq> []"
    using "1.prems" by (auto simp: take_Suc_conv_app_nth)
  show ?case
  proof (cases "idx + 1 < length recent")
    case False
    with "1.prems" have "Suc idx = length recent" by simp
    moreover have "expand_window ld recent final idx = Some final"
      using False by (subst expand_window.simps) simp
    ultimately show ?thesis
      using "1.prems" by (intro exI[of _ "length recent"]) auto
  next
    case more: True
    show ?thesis
    proof (cases "chain_open ld (recent ! idx)")
      case False
      moreover have "expand_window ld recent final idx = Some final"
        using more ne False last by (subst expand_window.simps) simp
      ultimately show ?thesis
        using more "1.prems" by (intro exI[of _ "Suc idx"]) auto
    next
      case True
      have step: "final @ [recent ! (idx + 1)] = take (Suc (idx + 1)) recent"
        using more "1.prems" by (simp add: take_Suc_conv_app_nth)
      from "1.IH"[OF more ne _ _ step] more True last
      obtain k where k:
        "expand_window ld recent (final @ [recent ! (idx + 1)]) (idx + 1) = Some (take k recent)"
        "Suc (idx + 1) \<le> k" "k \<le> length recent"
        "\<forall>j. idx + 1 \<le> j \<and> Suc j < k \<longrightarrow> chain_open ld (recent ! j)"
        "k = length recent \<or> \<not> chain_open ld (recent ! (k - 1))"
        by auto
      have "\<forall>j. idx \<le> j \<and> Suc j < k \<longrightarrow> chain_open ld (recent ! j)"
      proof (intro allI impI)
        fix j assume j: "idx \<le> j \<and> Suc j < k"
        show "chain_open ld (recent ! j)"
        proof (cases "j = idx")
          case True
          then show ?thesis using \<open>chain_open ld (recent ! idx)\<close> by simp
        next
          case False
          with j k(4) show ?thesis by simp
        qed
      qed
      moreover have "expand_window ld recent final idx = Some (take k recent)"
        using more ne True last k(1) by (subst expand_window.simps) simp
      ultimately show ?thesis
        using k(2,3,5) by (intro exI[of _ k]) auto
    qed
  qed
qed

lemma length_query_recent: "length (query_recent N sid db) \<le> 2 * N"
  by (simp add: query_recent_def)

lemma final_messages_desc_take:
  assumes "query_recent N sid db \<noteq> []"
  shows "\<exists>k. final_messages_desc ld N sid db = Some (take k (query_recent N sid db)) \<and>
       min N (length (query_recent N sid db)) \<le> k \<and> k \<le> length (query_recent N sid db) \<and>
       (\<forall>j. min N (length (query_recent N sid db)) \<le> Suc j \<and> Suc j < k \<longrightarrow>
            chain_open ld (query_recent N sid db ! j)) \<and>
       (k = length (query_recent N sid db) \<or> \<not> chain_open ld (query_recent N sid db ! (k - 1)))"
proof -
  define recent where "recent = query_recent N sid db"
  define n where "n = min N (length recent)"
  have ne: "recent \<noteq> []" using assms by (simp add: recent_def)
  have "0 < N"
    using assms by (cases N) (simp_all add: query_recent_def)
  then have n: "0 < n" "n \<le> length recent" using ne by (simp_all add: n_def)
  have trunc: "(if length recent > N then take N recent else recent) = take n recent"
    by (simp add: n_def min_def)
  have len: "length (take n recent) - 1 = n - 1" using n by simp
  have "n - 1 < length recent" "take n recent = take (Suc (n - 1)) recent" using n by simp_all
  from expand_window_take[OF this, of ld]
  obtain k where k: "expand_window ld recent (take n recent) (n - 1) = Some (take k recent)"
    "Suc (n - 1) \<le> k" "k \<le> length recent"
    "\<forall>j. n - 1 \<le> j \<and> Suc j < k \<longrightarrow> chain_open ld (recent ! j)"
    "k = length recent \<or> \<not> chain_open ld (recent ! (k - 1))"
    by blast
  have "final_messages_desc ld N sid db = Some (take k recent)"
    using ne k(1) n
    by (simp add: final_messages_desc_def Let_def recent_def[symmetric] trunc min_absorb2)
  moreover have "n \<le> k" using k(2) by simp
  moreover have "\<forall>j. n \<le> Suc j \<and> Suc j < k \<longrightarrow> chain_open ld (recent ! j)"
    using k(4) by auto
  ultimately have "final_messages_desc ld N sid db = Some (take k recent) \<and>
       min N (length recent) \<le> k \<and> k \<le> length recent \<and>
       (\<forall>j. min N (length recent) \<le> Suc j \<and> Suc j < k \<longrightarrow> chain_open ld (recent ! j)) \<and>
       (k = length recent \<or> \<not> chain_open ld (recent ! (k - 1)))"
    using k(3,5) unfolding n_def by blast
  then show ?thesis unfolding recent_def by (rule exI)
qed

lemma final_messages_desc_empty:
  "query_recent N sid db = [] \<Longrightarrow> final_messages_desc ld N sid db = Some []"
  by (simp add: final_messages_desc_def)

text \<open>
  Claim C3, as amended. The window of \<open>get_history\<close> consists of the \<open>k\<close> newest messages
  of the fetched buffer, for some \<open>k\<close>: the returned list has \<open>k\<close> entries, \<open>k\<close> is at most
  the length of the buffer, which is at most twice \<open>max_history_messages\<close>; for a session
  id that is not empty the window holds at least the newest \<open>max_history_messages\<close>
  messages (or the whole buffer), so that expansion only adds older ones; \<open>k\<close> exceeds
  \<open>max_history_messages\<close> only when the oldest message of the candidate window is a tool
  message or an assistant message whose dict has the key \<open>tool_calls\<close> (an empty list
  included), and then, when the buffer holds an older message, it does exceed it.
\<close>

theorem window_bound:
  "\<exists>k. get_history ld N sid db =
         Some (map (history_dict ld) (rev (take k (query_recent N sid db)))) \<and>
       k \<le> length (query_recent N sid db) \<and>
       length (query_recent N sid db) \<le> 2 * N \<and>
       (sid \<noteq> [] \<longrightarrow> min N (length (query_recent N sid db)) \<le> k) \<and>
       (k \<le> N \<or> chain_open ld (query_recent N sid db ! (N - 1))) \<and>
       (sid \<noteq> [] \<and> 0 < N \<and> N < length (query_recent N sid db) \<and>
        chain_open ld (query_recent N sid db ! (N - 1)) \<longrightarrow> N < k)"
proof (cases "sid = [] \<or> query_recent N sid db = []")
  case True
  then show ?thesis
    by (intro exI[of _ 0]) (auto simp: get_history_def final_messages_desc_empty length_query_recent)
next
  case False
  then have ne: "query_recent N sid db \<noteq> []" and sid: "sid \<noteq> []" by simp_all
  from final_messages_desc_take[OF ne, of ld] obtain k where k:
    "final_messages_desc ld N sid db = Some (take k (query_recent N sid db))"
    "min N (length (query_recent N sid db)) \<le> k" "k \<le> length (query_recent N sid db)"
    "\<forall>j. min N (length (query_recent N sid db)) \<le> Suc j \<and> Suc j < k \<longrightarrow>
            chain_open ld (query_recent N sid db ! j)"
    "k = length (query_recent N sid db) \<or> \<not> chain_open ld (query_recent N sid db ! (k - 1))"
    by blast
  have "0 < N" using ne by (cases N) (simp_all add: query_recent_def)
  have up: "k \<le> N \<or> chain_open ld (query_recent N sid db ! (N - 1))"
  proof (cases "k \<le> N")
    case True
    then show ?thesis by simp
  next
    case False
    then have "min N (length (query_recent N sid db)) \<le> Suc (N - 1) \<and> Suc (N - 1) < k"
      using \<open>0 < N\<close> by simp
    with k(4) show ?thesis by blast
  qed
  have down: "N < length (query_recent N sid db) \<and>
              chain_open ld (query_recent N sid db ! (N - 1)) \<longrightarrow> N < k"
  proof
    assume a: "N < length (query_recent N sid db) \<and>
               chain_open ld (query_recent N sid db ! (N - 1))"
    then have "N \<le> k" using k(2) by simp
    moreover have "k \<noteq> N" using a k(5) by auto
    ultimately show "N < k" by simp
  qed
  show ?thesis
    using k(1,2,3) sid up down
    by (intro exI[of _ k]) (simp add: get_history_def length_query_recent)
qed

theorem window_bound_witness:
  "''s'' \<noteq> [] \<and> (0::nat) < 2 \<and>
   get_history ex_loads 2 ''s'' db_chain =
     Some [Dict (plain ''user'' ''hi''),
           Dict \<lparr>role = Some ''assistant'', content = Some (PyStr []),
                 tool_calls = Some [ex_call_a], tool_call_id = None, name = None\<rparr>,
           Dict ex_result_a, Dict (plain ''assistant'' ''hello'')] \<and>
   2 < length (query_recent 2 ''s'' db_chain) \<and>
   chain_open ex_loads (query_recent 2 ''s'' db_chain ! (2 - 1)) \<and>
   (\<exists>k. get_history ex_loads 2 ''s'' db_chain =
         Some (map (history_dict ex_loads) (rev (take k (query_recent 2 ''s'' db_chain)))) \<and>
       k \<le> length (query_recent 2 ''s'' db_chain) \<and>
       length (query_recent 2 ''s'' db_chain) \<le> 2 * 2 \<and>
       min 2 (length (query_recent 2 ''s'' db_chain)) \<le> k \<and> 2 < k) \<and>
   get_history ex_loads 2 ''s'' db_plain =
     Some [Dict (plain ''user'' ''hi''), Dict (plain ''assistant'' ''hello'')] \<and>
   \<not> chain_open ex_loads (query_recent 2 ''s'' db_plain ! (2 - 1)) \<and>
   (\<exists>k. get_history ex_loads 2 ''s'' db_plain =
         Some (map (history_dict ex_loads) (rev (take k (query_recent 2 ''s'' db_plain)))) \<and>
       min 2 (length (query_recent 2 ''s'' db_plain)) \<le> k \<and> k \<le> 2)"
proof -
  have sid: "''s'' \<noteq> []" by simp
  have ev: "get_history ex_loads 2 ''s'' db_chain =
     Some [Dict (plain ''user'' ''hi''),
           Dict \<lparr>role = Some ''assistant'', content = Some (PyStr []),
                 tool_calls = Some [ex_call_a], tool_call_id = None, name = None\<rparr>,
           Dict ex_result_a, Dict (plain ''assistant'' ''hello'')]"
    by code_simp
  have len: "2 < length (query_recent 2 ''s'' db_chain)" by code_simp
  have opn: "chain_open ex_loads (query_recent 2 ''s'' db_chain ! (2 - 1))" by code_simp
  have ev': "get_history ex_loads 2 ''s'' db_plain =
     Some [Dict (plain ''user'' ''hi''), Dict (plain ''assistant'' ''hello'')]"
    by code_simp
  have cls: "\<not> chain_open ex_loads (query_recent 2 ''s'' db_plain ! (2 - 1))" by code_simp
  have two: "(0::nat) < 2" by simp
  from window_bound[of ex_loads 2 "''s''" db_chain] sid two len opn
  have a: "\<exists>k. get_history ex_loads 2 ''s'' db_chain =
         Some (map (history_dict ex_loads) (rev (take k (query_recent 2 ''s'' db_chain)))) \<and>
       k \<le> length (query_recent 2 ''s'' db_chain) \<and>
       length (query_recent 2 ''s'' db_chain) \<le> 2 * 2 \<and>
       min 2 (length (query_recent 2 ''s'' db_chain)) \<le> k \<and> 2 < k"
    by blast
  from window_bound[of ex_loads 2 "''s''" db_plain] sid cls
  have b: "\<exists>k. get_history ex_loads 2 ''s'' db_plain =
         Some (map (history_dict ex_loads) (rev (take k (query_recent 2 ''s'' db_plain)))) \<and>
       min 2 (length (query_recent 2 ''s'' db_plain)) \<le> k \<and> k \<le> 2"
    by blast
  from sid two ev len opn a ev' cls b show ?thesis by blast
qed

text \<open>
  The claim as stated fails on a history without any tool-call chain: with
  \<open>max_history_messages = 2\<close> the window has three messages, none of them a tool message
  or an assistant message with a non-empty \<open>tool_calls\<close> list, so no chain was there to be
  cut.
\<close>

theorem window_bound_counterexample:
  "get_history ex_loads 2 ''s'' db_no_calls =
     Some [Dict (plain ''user'' ''hi''),
           Dict \<lparr>role = Some ''assistant'', content = Some (PyStr []),
                 tool_calls = Some [], tool_call_id = None, name = None\<rparr>,
           Dict (plain ''user'' ''hi'')] \<and>
   \<not> length [Dict (plain ''user'' ''hi''),
             Dict \<lparr>role = Some ''assistant'', content = Some (PyStr []),
                   tool_calls = Some [], tool_call_id = None, name = None\<rparr>,
             Dict (plain ''user'' ''hi'')] \<le> (2::nat) \<and>
   \<not> spec_chain_open ex_loads (db_no_calls ! 0) \<and>
   \<not> spec_chain_open ex_loads (db_no_calls ! 1) \<and>
   \<not> spec_chain_open ex_loads (db_no_calls ! 2) \<and>
   length db_no_calls = 3"
  by code_simp

text \<open>
  Claim C4, as amended. After the newest \<open>N\<close> messages are taken, the window is expanded
  by one older message at a time exactly while its oldest message is a tool message or an
  assistant message whose dict has the key \<open>tool_calls\<close> (an empty list included):
  the result is the \<open>k\<close> newest messages of the buffer, every message from the oldest of
  the candidate window up to the one before the oldest of the result is part of a chain,
  and either the buffer is exhausted or the oldest message of the result is not part of a
  chain (a message that does not parse is not). The result is always returned.
\<close>

theorem window_expansion:
  "query_recent N sid db \<noteq> [] \<Longrightarrow>
   \<exists>k. final_messages_desc ld N sid db = Some (take k (query_recent N sid db)) \<and>
       min N (length (query_recent N sid db)) \<le> k \<and> k \<le> length (query_recent N sid db) \<and>
       (\<forall>j. min N (length (query_recent N sid db)) \<le> Suc j \<and> Suc j < k \<longrightarrow>
            chain_open ld (query_recent N sid db ! j)) \<and>
       (k = length (query_recent N sid db) \<or> \<not> chain_open ld (query_recent N sid db ! (k - 1)))"
  by (rule final_messages_desc_take)

theorem window_expansion_witness:
  "query_recent 2 ''s'' db_chain \<noteq> [] \<and>
   final_messages_desc ex_loads 2 ''s'' db_chain = Some (rev db_chain) \<and>
   (\<exists>k. final_messages_desc ex_loads 2 ''s'' db_chain = Some (take k (query_recent 2 ''s'' db_chain)) \<and>
       min 2 (length (query_recent 2 ''s'' db_chain)) \<le> k \<and> k \<le> length (query_recent 2 ''s'' db_chain) \<and>
       (\<forall>j. min 2 (length (query_recent 2 ''s'' db_chain)) \<le> Suc j \<and> Suc j < k \<longrightarrow>
            chain_open ex_loads (query_recent 2 ''s'' db_chain ! j)) \<and>
       (k = length (query_recent 2 ''s'' db_chain) \<or>
        \<not> chain_open ex_loads (query_recent 2 ''s'' db_chain ! (k - 1))))"
proof -
  have ne: "query_recent 2 ''s'' db_chain \<noteq> []" by code_simp
  have ev: "final_messages_desc ex_loads 2 ''s'' db_chain = Some (rev db_chain)" by code_simp
  from window_expansion[OF ne, of ex_loads] ne ev show ?thesis by blast
qed

text \<open>
  The claim as the specification words it fails on an assistant message with an empty
  \<open>tool_calls\<close> list: the window grows from two to three messages although its oldest
  message is neither a tool message nor an assistant message with non-empty \<open>tool_calls\<close>.
\<close>

theorem window_expansion_counterexample:
  "final_messages_desc ex_loads 2 ''s'' db_no_calls = Some (rev db_no_calls) \<and>
   length (rev db_no_calls) = 3 \<and>
   \<not> spec_chain_open ex_loads (query_recent 2 ''s'' db_no_calls ! 1)"
  by code_simp

lemma final_messages_desc_total: "\<exists>w. final_messages_desc ld N sid db = Some w"
proof (cases "query_recent N sid db = []")
  case True
  then show ?thesis by (simp add: final_messages_desc_empty)
next
  case False
  from final_messages_desc_take[OF False, of ld] show ?thesis by blast
qed

text \<open>
  Claim C9, as amended. A stored content that does not parse does not abort the window,
  and the message is not omitted either: for a session id that is not empty
  \<open>get_history\<close> returns one entry per row of the window, and the entry of a row whose
  content raises \<^verbatim>\<open>JSONDecodeError\<close> is the fallback dict made of the row's role and its raw
  content.
\<close>

theorem unparseable_row_kept:
  "sid \<noteq> [] \<Longrightarrow>
   \<exists>w. final_messages_desc ld N sid db = Some w \<and>
       get_history ld N sid db = Some (map (history_dict ld) (rev w)) \<and>
       length (map (history_dict ld) (rev w)) = length w \<and>
       (\<forall>m\<in>set w. ld (cm_content m) = JSONDecodeError \<longrightarrow>
          history_dict ld m =
            Dict \<lparr>role = Some (cm_role m), content = Some (PyStr (cm_content m)),
                  tool_calls = None, tool_call_id = None, name = None\<rparr> \<and>
          history_dict ld m \<in> set (map (history_dict ld) (rev w)))"
proof -
  assume sid: "sid \<noteq> []"
  from final_messages_desc_total obtain w where w: "final_messages_desc ld N sid db = Some w"
    by blast
  have "get_history ld N sid db = Some (map (history_dict ld) (rev w))"
    using sid w by (simp add: get_history_def)
  moreover have "\<forall>m\<in>set w. ld (cm_content m) = JSONDecodeError \<longrightarrow>
          history_dict ld m =
            Dict \<lparr>role = Some (cm_role m), content = Some (PyStr (cm_content m)),
                  tool_calls = None, tool_call_id = None, name = None\<rparr> \<and>
          history_dict ld m \<in> set (map (history_dict ld) (rev w))"
  proof (intro ballI impI conjI)
    fix m assume "m \<in> set w" "ld (cm_content m) = JSONDecodeError"
    then show "history_dict ld m =
            Dict \<lparr>role = Some (cm_role m), content = Some (PyStr (cm_content m)),
                  tool_calls = None, tool_call_id = None, name = None\<rparr>"
      by (simp add: history_dict_def)
    show "history_dict ld m \<in> set (map (history_dict ld) (rev w))"
      using \<open>m \<in> set w\<close> by simp
  qed
  ultimately show ?thesis using w by auto
qed

theorem unparseable_row_kept_witness:
  "''s'' \<noteq> [] \<and> ex_loads json_bad = JSONDecodeError \<and>
   final_messages_desc ex_loads 2 ''s'' db_bad = Some db_bad \<and>
   get_history ex_loads 2 ''s'' db_bad = Some (map (history_dict ex_loads) (rev db_bad)) \<and>
   history_dict ex_loads (row ''user'' json_bad) = Dict (plain ''user'' json_bad)"
proof -
  have sid: "''s'' \<noteq> []" by simp
  have bad: "ex_loads json_bad = JSONDecodeError" by code_simp
  have ev: "final_messages_desc ex_loads 2 ''s'' db_bad = Some db_bad" by code_simp
  have mem: "row ''user'' json_bad \<in> set db_bad" by (simp add: db_bad_def)
  have c: "cm_content (row ''user'' json_bad) = json_bad" "cm_role (row ''user'' json_bad) = ''user''"
    by (simp_all add: row_def)
  from unparseable_row_kept[OF sid, of ex_loads 2 db_bad] ev
  have "get_history ex_loads 2 ''s'' db_bad = Some (map (history_dict ex_loads) (rev db_bad))"
    and "\<forall>m\<in>set db_bad. ex_loads (cm_content m) = JSONDecodeError \<longrightarrow>
          history_dict ex_loads m =
            Dict \<lparr>role = Some (cm_role m), content = Some (PyStr (cm_content m)),
                  tool_calls = None, tool_call_id = None, name = None\<rparr>"
    by auto
  with mem bad c sid ev show ?thesis by (auto simp: plain_def)
qed

text \<open>The claim as stated fails: the single unparseable row is returned, not skipped.\<close>

theorem unparseable_row_counterexample:
  "ex_loads json_bad = JSONDecodeError \<and>
   get_history ex_loads 2 ''s'' db_bad = Some [Dict (plain ''user'' json_bad)] \<and>
   get_history ex_loads 2 ''s'' db_bad \<noteq> Some []"
  by code_simp

section \<open>Properties of the dispatch\<close>

lemma insort_key_map:
  "insort_key g (f x) (map f ys) = map f (insort_key (\<lambda>y. g (f y)) x ys)"
  by (induction ys) auto

lemma sort_key_map: "sort_key g (map f ys) = map f (sort_key (\<lambda>y. g (f y)) ys)"
  by (induction ys) (auto simp: insort_key_map)

lemma sort_sort_key_upt: "sort_key (\<lambda>k. k) (sort_key d [0..<n]) = [0..<n]"
  by (rule sorted_distinct_set_unique) simp_all

lemma gather_id: "gather d tasks = tasks"
  by (simp add: gather_def Let_def sort_key_map sort_sort_key_upt map_nth o_def)

text \<open>
  Claim C2. The dispatch returns one result per requested call, in the order of the calls,
  whatever the delays of the single invocations (the order in which they finish) and
  whether they succeed or fail: the result list is the list of the calls' own results.
\<close>

theorem dispatch_in_input_order:
  "dispatch e calls = map (execute_tool (registry e)) calls \<and>
   length (dispatch e calls) = length calls \<and>
   map tool_call_id (dispatch e calls) = map (\<lambda>tc. Some (mtc_id tc)) calls \<and>
   gather d (map (execute_tool reg) calls) = map (execute_tool reg) calls"
  by (simp add: dispatch_def gather_id execute_tool_def tool_result_def Let_def
           split: option.splits outcome.splits)

text \<open>
  Claim C5. For every registry and every call, \<open>execute_tool\<close> returns a message of role
  \<open>tool\<close> that carries the id of the call, the requested tool name and a string content;
  each step that can raise (parsing the argument string, the tool, \<^verbatim>\<open>str\<close>) ends in
  such a message. The content is, byte for byte (the texts of llm_router.py, lines 467
  and 502, in UTF-8),

    \<^item> for a name that is not registered, the error text of line 467 with the requested
      name between its quotes;
    \<^item> when the argument string is not empty and \<^verbatim>\<open>json.loads\<close> raises \<open>err\<close>, the
      failure prefix of line 502 followed by \<open>err\<close>;
    \<^item> when the tool raises \<open>err\<close> on the parsed arguments (\<^verbatim>\<open>{}\<close> for an empty argument
      string), the failure prefix followed by \<open>err\<close>;
    \<^item> when the tool returns \<open>result\<close>, \<^verbatim>\<open>str(result)\<close>;

  and it is always one of these. In a batch, the result of a call stands at the position
  of the call and is the result of the call alone, whatever the calls before and after it
  are and do; the batch has one result per call.
\<close>

theorem execute_tool_result:
  assumes "tool_name = fc_name (mtc_function tc)"
    and "tool_args_str = fc_arguments (mtc_function tc)"
    and "out = execute_tool (registry e) tc"
  shows "role out = Some ''tool'' \<and> tool_call_id out = Some (mtc_id tc) \<and>
         name out = Some tool_name \<and> tool_calls out = None \<and>
         (content out = Some (PyStr (
              [CHR 0xE9, CHR 0x94, CHR 0x99, CHR 0xE8, CHR 0xAF, CHR 0xAF, CHR 0x3A, CHR 0x20,
            CHR 0xE6, CHR 0x89, CHR 0xBE, CHR 0xE4, CHR 0xB8, CHR 0x8D, CHR 0xE5, CHR 0x88,
            CHR 0xB0, CHR 0xE5, CHR 0x90, CHR 0x8D, CHR 0xE4, CHR 0xB8, CHR 0xBA, CHR 0x20,
            CHR 0x27] @ tool_name @
              [CHR 0x27, CHR 0x20, CHR 0xE7, CHR 0x9A, CHR 0x84, CHR 0xE5, CHR 0xB7, CHR 0xA5,
            CHR 0xE5, CHR 0x85, CHR 0xB7, CHR 0xE3, CHR 0x80, CHR 0x82])) \<or>
          (\<exists>err. content out = Some (PyStr (
              [CHR 0xE6, CHR 0x89, CHR 0xA7, CHR 0xE8, CHR 0xA1, CHR 0x8C, CHR 0xE5, CHR 0xA4,
            CHR 0xB1, CHR 0xE8, CHR 0xB4, CHR 0xA5, CHR 0x3A, CHR 0x20] @ err))) \<or>
          (\<exists>tool_to_call tool_args result.
              get_tool (registry e) tool_name = Some tool_to_call \<and>
              tool_to_call tool_args = Returned result \<and>
              content out = Some (PyStr (str_of (registry e) result)))) \<and>
         (get_tool (registry e) tool_name = None \<longrightarrow>
            content out = Some (PyStr (
              [CHR 0xE9, CHR 0x94, CHR 0x99, CHR 0xE8, CHR 0xAF, CHR 0xAF, CHR 0x3A, CHR 0x20,
            CHR 0xE6, CHR 0x89, CHR 0xBE, CHR 0xE4, CHR 0xB8, CHR 0x8D, CHR 0xE5, CHR 0x88,
            CHR 0xB0, CHR 0xE5, CHR 0x90, CHR 0x8D, CHR 0xE4, CHR 0xB8, CHR 0xBA, CHR 0x20,
            CHR 0x27] @ tool_name @
              [CHR 0x27, CHR 0x20, CHR 0xE7, CHR 0x9A, CHR 0x84, CHR 0xE5, CHR 0xB7, CHR 0xA5,
            CHR 0xE5, CHR 0x85, CHR 0xB7, CHR 0xE3, CHR 0x80, CHR 0x82]))) \<and>
         (\<forall>tool_to_call err.
            get_tool (registry e) tool_name = Some tool_to_call \<and> tool_args_str \<noteq> [] \<and>
            json_loads (registry e) tool_args_str = Raised err \<longrightarrow>
            content out = Some (PyStr (
              [CHR 0xE6, CHR 0x89, CHR 0xA7, CHR 0xE8, CHR 0xA1, CHR 0x8C, CHR 0xE5, CHR 0xA4,
            CHR 0xB1, CHR 0xE8, CHR 0xB4, CHR 0xA5, CHR 0x3A, CHR 0x20] @ err))) \<and>
         (\<forall>tool_to_call tool_args err.
            get_tool (registry e) tool_name = Some tool_to_call \<and>
            (if tool_args_str = [] then tool_args = empty_args (registry e)
             else json_loads (registry e) tool_args_str = Returned tool_args) \<and>
            tool_to_call tool_args = Raised err \<longrightarrow>
            content out = Some (PyStr (
              [CHR 0xE6, CHR 0x89, CHR 0xA7, CHR 0xE8, CHR 0xA1, CHR 0x8C, CHR 0xE5, CHR 0xA4,
            CHR 0xB1, CHR 0xE8, CHR 0xB4, CHR 0xA5, CHR 0x3A, CHR 0x20] @ err))) \<and>
         (\<forall>tool_to_call tool_args result.
            get_tool (registry e) tool_name = Some tool_to_call \<and>
            (if tool_args_str = [] then tool_args = empty_args (registry e)
             else json_loads (registry e) tool_args_str = Returned tool_args) \<and>
            tool_to_call tool_args = Returned result \<longrightarrow>
            content out = Some (PyStr (str_of (registry e) result))) \<and>
         length (dispatch e (before @ tc # after)) = length before + 1 + length after \<and>
         dispatch e (before @ tc # after) ! length before = out"
proof -
  have shape: "role out = Some ''tool'' \<and> tool_call_id out = Some (mtc_id tc) \<and>
               name out = Some tool_name \<and> tool_calls out = None"
    using assms
    by (simp add: execute_tool_def tool_result_def Let_def split: option.splits outcome.splits)
  have kinds: "content out = Some (PyStr (
              [CHR 0xE9, CHR 0x94, CHR 0x99, CHR 0xE8, CHR 0xAF, CHR 0xAF, CHR 0x3A, CHR 0x20,
            CHR 0xE6, CHR 0x89, CHR 0xBE, CHR 0xE4, CHR 0xB8, CHR 0x8D, CHR 0xE5, CHR 0x88,
            CHR 0xB0, CHR 0xE5, CHR 0x90, CHR 0x8D, CHR 0xE4, CHR 0xB8, CHR 0xBA, CHR 0x20,
            CHR 0x27] @ tool_name @
              [CHR 0x27, CHR 0x20, CHR 0xE7, CHR 0x9A, CHR 0x84, CHR 0xE5, CHR 0xB7, CHR 0xA5,
            CHR 0xE5, CHR 0x85, CHR 0xB7, CHR 0xE3, CHR 0x80, CHR 0x82])) \<or>
          (\<exists>err. content out = Some (PyStr (
              [CHR 0xE6, CHR 0x89, CHR 0xA7, CHR 0xE8, CHR 0xA1, CHR 0x8C, CHR 0xE5, CHR 0xA4,
            CHR 0xB1, CHR 0xE8, CHR 0xB4, CHR 0xA5, CHR 0x3A, CHR 0x20] @ err))) \<or>
          (\<exists>tool_to_call tool_args result.
              get_tool (registry e) tool_name = Some tool_to_call \<and>
              tool_to_call tool_args = Returned result \<and>
              content out = Some (PyStr (str_of (registry e) result)))"
  proof (cases "get_tool (registry e) tool_name")
    case None
    then show ?thesis
      using assms by (simp add: execute_tool_def tool_result_def Let_def not_found_msg_def)
  next
    case (Some tool_to_call)
    show ?thesis
    proof (cases "parse_arguments (registry e) tool_args_str")
      case (Raised err)
      then have "content out = Some (PyStr (
              [CHR 0xE6, CHR 0x89, CHR 0xA7, CHR 0xE8, CHR 0xA1, CHR 0x8C, CHR 0xE5, CHR 0xA4,
            CHR 0xB1, CHR 0xE8, CHR 0xB4, CHR 0xA5, CHR 0x3A, CHR 0x20] @ err))"
        using assms Some by (simp add: execute_tool_def tool_result_def Let_def failed_msg_def)
      then show ?thesis by blast
    next
      case (Returned tool_args)
      show ?thesis
      proof (cases "tool_to_call tool_args")
        case (Raised err)
        then have "content out = Some (PyStr (
              [CHR 0xE6, CHR 0x89, CHR 0xA7, CHR 0xE8, CHR 0xA1, CHR 0x8C, CHR 0xE5, CHR 0xA4,
            CHR 0xB1, CHR 0xE8, CHR 0xB4, CHR 0xA5, CHR 0x3A, CHR 0x20] @ err))"
          using assms Some Returned
          by (simp add: execute_tool_def tool_result_def Let_def failed_msg_def)
        then show ?thesis by blast
      next
        case result: (Returned result)
        then have "content out = Some (PyStr (str_of (registry e) result))"
          using assms Some Returned by (simp add: execute_tool_def tool_result_def Let_def)
        with Some result show ?thesis by blast
      qed
    qed
  qed
  have unknown: "get_tool (registry e) tool_name = None \<longrightarrow>
            content out = Some (PyStr (
              [CHR 0xE9, CHR 0x94, CHR 0x99, CHR 0xE8, CHR 0xAF, CHR 0xAF, CHR 0x3A, CHR 0x20,
            CHR 0xE6, CHR 0x89, CHR 0xBE, CHR 0xE4, CHR 0xB8, CHR 0x8D, CHR 0xE5, CHR 0x88,
            CHR 0xB0, CHR 0xE5, CHR 0x90, CHR 0x8D, CHR 0xE4, CHR 0xB8, CHR 0xBA, CHR 0x20,
            CHR 0x27] @ tool_name @
              [CHR 0x27, CHR 0x20, CHR 0xE7, CHR 0x9A, CHR 0x84, CHR 0xE5, CHR 0xB7, CHR 0xA5,
            CHR 0xE5, CHR 0x85, CHR 0xB7, CHR 0xE3, CHR 0x80, CHR 0x82]))"
    using assms by (simp add: execute_tool_def tool_result_def Let_def not_found_msg_def)
  have unparsed: "\<forall>tool_to_call err.
            get_tool (registry e) tool_name = Some tool_to_call \<and> tool_args_str \<noteq> [] \<and>
            json_loads (registry e) tool_args_str = Raised err \<longrightarrow>
            content out = Some (PyStr (
              [CHR 0xE6, CHR 0x89, CHR 0xA7, CHR 0xE8, CHR 0xA1, CHR 0x8C, CHR 0xE5, CHR 0xA4,
            CHR 0xB1, CHR 0xE8, CHR 0xB4, CHR 0xA5, CHR 0x3A, CHR 0x20] @ err))"
    using assms
    by (simp add: execute_tool_def tool_result_def Let_def failed_msg_def parse_arguments_def)
  have raising: "\<forall>tool_to_call tool_args err.
            get_tool (registry e) tool_name = Some tool_to_call \<and>
            (if tool_args_str = [] then tool_args = empty_args (registry e)
             else json_loads (registry e) tool_args_str = Returned tool_args) \<and>
            tool_to_call tool_args = Raised err \<longrightarrow>
            content out = Some (PyStr (
              [CHR 0xE6, CHR 0x89, CHR 0xA7, CHR 0xE8, CHR 0xA1, CHR 0x8C, CHR 0xE5, CHR 0xA4,
            CHR 0xB1, CHR 0xE8, CHR 0xB4, CHR 0xA5, CHR 0x3A, CHR 0x20] @ err))"
    using assms
    by (auto simp: execute_tool_def tool_result_def Let_def failed_msg_def parse_arguments_def
             split: if_splits)
  have returning: "\<forall>tool_to_call tool_args result.
            get_tool (registry e) tool_name = Some tool_to_call \<and>
            (if tool_args_str = [] then tool_args = empty_args (registry e)
             else json_loads (registry e) tool_args_str = Returned tool_args) \<and>
            tool_to_call tool_args = Returned result \<longrightarrow>
            content out = Some (PyStr (str_of (registry e) result))"
    using assms
    by (auto simp: execute_tool_def tool_result_def Let_def parse_arguments_def
             split: if_splits)
  have batch: "length (dispatch e (before @ tc # after)) = length before + 1 + length after \<and>
               dispatch e (before @ tc # after) ! length before = out"
    using assms by (simp add: dispatch_def gather_id nth_append)
  from shape kinds unknown unparsed raising returning batch show ?thesis by blast
qed

theorem execute_tool_result_witness:
  "get_tool (registry (ex_env ex_llm)) ''unknown_tool'' = None \<and>
   content (execute_tool ex_tools (ex_calls ! 0)) = Some (PyStr (
     [CHR 0xE9, CHR 0x94, CHR 0x99, CHR 0xE8, CHR 0xAF, CHR 0xAF, CHR 0x3A, CHR 0x20,
      CHR 0xE6, CHR 0x89, CHR 0xBE, CHR 0xE4, CHR 0xB8, CHR 0x8D, CHR 0xE5, CHR 0x88,
      CHR 0xB0, CHR 0xE5, CHR 0x90, CHR 0x8D, CHR 0xE4, CHR 0xB8, CHR 0xBA, CHR 0x20,
      CHR 0x27] @ ''unknown_tool'' @
     [CHR 0x27, CHR 0x20, CHR 0xE7, CHR 0x9A, CHR 0x84, CHR 0xE5, CHR 0xB7, CHR 0xA5,
      CHR 0xE5, CHR 0x85, CHR 0xB7, CHR 0xE3, CHR 0x80, CHR 0x82])) \<and>
   json_loads ex_tools (fc_arguments (mtc_function ex_call_unparsed)) = Raised ''Expecting value'' \<and>
   content (execute_tool ex_tools ex_call_unparsed) = Some (PyStr (
     [CHR 0xE6, CHR 0x89, CHR 0xA7, CHR 0xE8, CHR 0xA1, CHR 0x8C, CHR 0xE5, CHR 0xA4,
      CHR 0xB1, CHR 0xE8, CHR 0xB4, CHR 0xA5, CHR 0x3A, CHR 0x20] @ ''Expecting value'')) \<and>
   json_loads ex_tools (fc_arguments (mtc_function ex_call_raising)) = Returned ''1/0'' \<and>
   content (execute_tool ex_tools ex_call_raising) = Some (PyStr (
     [CHR 0xE6, CHR 0x89, CHR 0xA7, CHR 0xE8, CHR 0xA1, CHR 0x8C, CHR 0xE5, CHR 0xA4,
      CHR 0xB1, CHR 0xE8, CHR 0xB4, CHR 0xA5, CHR 0x3A, CHR 0x20] @ ''division by zero'')) \<and>
   json_loads ex_tools (fc_arguments (mtc_function (ex_calls ! 1))) = Returned ''2+2'' \<and>
   content (execute_tool ex_tools (ex_calls ! 1)) = Some (PyStr ''4'') \<and>
   dispatch (ex_env ex_llm) [ex_calls ! 0, ex_call_unparsed, ex_call_raising, ex_calls ! 1] ! 3 =
     \<lparr>role = Some ''tool'', content = Some (PyStr ''4''), tool_calls = None,
      tool_call_id = Some ''call_2'', name = Some ''calculate''\<rparr> \<and>
   length (dispatch (ex_env ex_llm) [ex_calls ! 0, ex_call_unparsed, ex_call_raising, ex_calls ! 1]) = 4"
proof -
  let ?e = "ex_env ex_llm"
  have r: "registry ?e = ex_tools" by (simp add: ex_env_def)
  have calc: "get_tool ex_tools ''calculate'' =
                Some (\<lambda>args. if args = ''2+2'' then Returned ''4''
                             else if args = ''1/0'' then Raised ''division by zero''
                             else Raised ''invalid expression'')"
    by (simp add: ex_tools_def)
  have n0: "fc_name (mtc_function (ex_calls ! 0)) = ''unknown_tool''"
    by (simp add: ex_calls_def)
  have g0: "get_tool (registry ?e) ''unknown_tool'' = None"
    by (simp add: ex_env_def ex_tools_def)
  from execute_tool_result[where e = ?e and tc = "ex_calls ! 0" and before = "[]" and after = "[]",
         OF n0[symmetric] refl refl] g0
  have c0: "content (execute_tool ex_tools (ex_calls ! 0)) = Some (PyStr (
     [CHR 0xE9, CHR 0x94, CHR 0x99, CHR 0xE8, CHR 0xAF, CHR 0xAF, CHR 0x3A, CHR 0x20,
      CHR 0xE6, CHR 0x89, CHR 0xBE, CHR 0xE4, CHR 0xB8, CHR 0x8D, CHR 0xE5, CHR 0x88,
      CHR 0xB0, CHR 0xE5, CHR 0x90, CHR 0x8D, CHR 0xE4, CHR 0xB8, CHR 0xBA, CHR 0x20,
      CHR 0x27] @ ''unknown_tool'' @
     [CHR 0x27, CHR 0x20, CHR 0xE7, CHR 0x9A, CHR 0x84, CHR 0xE5, CHR 0xB7, CHR 0xA5,
      CHR 0xE5, CHR 0x85, CHR 0xB7, CHR 0xE3, CHR 0x80, CHR 0x82]))"
    unfolding r by blast
  have n1: "fc_name (mtc_function ex_call_unparsed) = ''calculate''"
    and a1: "fc_arguments (mtc_function ex_call_unparsed) \<noteq> []"
    and j1: "json_loads ex_tools (fc_arguments (mtc_function ex_call_unparsed))
               = Raised ''Expecting value''"
    by (simp_all add: ex_call_unparsed_def ex_tools_def)
  from execute_tool_result[where e = ?e and tc = ex_call_unparsed and before = "[]" and after = "[]",
         OF n1[symmetric] refl refl] calc a1 j1
  have c1: "content (execute_tool ex_tools ex_call_unparsed) = Some (PyStr (
     [CHR 0xE6, CHR 0x89, CHR 0xA7, CHR 0xE8, CHR 0xA1, CHR 0x8C, CHR 0xE5, CHR 0xA4,
      CHR 0xB1, CHR 0xE8, CHR 0xB4, CHR 0xA5, CHR 0x3A, CHR 0x20] @ ''Expecting value''))"
    unfolding r by blast
  have n2: "fc_name (mtc_function ex_call_raising) = ''calculate''"
    and a2: "fc_arguments (mtc_function ex_call_raising) \<noteq> []"
    and j2: "json_loads ex_tools (fc_arguments (mtc_function ex_call_raising)) = Returned ''1/0''"
    by (simp_all add: ex_call_raising_def ex_tools_def)
  have t2: "(\<lambda>args. if args = ''2+2'' then Returned ''4''
                   else if args = ''1/0'' then Raised ''division by zero''
                   else Raised ''invalid expression'') ''1/0'' = Raised ''division by zero''"
    by simp
  have p2: "(if fc_arguments (mtc_function ex_call_raising) = [] then ''1/0'' = empty_args ex_tools
             else json_loads ex_tools (fc_arguments (mtc_function ex_call_raising)) = Returned ''1/0'')"
    using a2 j2 by simp
  from execute_tool_result[where e = ?e and tc = ex_call_raising and before = "[]" and after = "[]",
         OF n2[symmetric] refl refl] calc p2 t2
  have c2: "content (execute_tool ex_tools ex_call_raising) = Some (PyStr (
     [CHR 0xE6, CHR 0x89, CHR 0xA7, CHR 0xE8, CHR 0xA1, CHR 0x8C, CHR 0xE5, CHR 0xA4,
      CHR 0xB1, CHR 0xE8, CHR 0xB4, CHR 0xA5, CHR 0x3A, CHR 0x20] @ ''division by zero''))"
    unfolding r by blast
  have n3: "fc_name (mtc_function (ex_calls ! 1)) = ''calculate''"
    and a3: "fc_arguments (mtc_function (ex_calls ! 1)) \<noteq> []"
    and j3: "json_loads ex_tools (fc_arguments (mtc_function (ex_calls ! 1))) = Returned ''2+2''"
    by (simp_all add: ex_calls_def ex_tools_def)
  have t3: "(\<lambda>args. if args = ''2+2'' then Returned ''4''
                   else if args = ''1/0'' then Raised ''division by zero''
                   else Raised ''invalid expression'') ''2+2'' = Returned ''4''"
    by simp
  have p3: "(if fc_arguments (mtc_function (ex_calls ! 1)) = [] then ''2+2'' = empty_args ex_tools
             else json_loads ex_tools (fc_arguments (mtc_function (ex_calls ! 1))) = Returned ''2+2'')"
    using a3 j3 by simp
  have s3: "str_of ex_tools ''4'' = ''4''" by (simp add: ex_tools_def)
  note t = execute_tool_result[where e = ?e and tc = "ex_calls ! 1"
             and before = "[ex_calls ! 0, ex_call_unparsed, ex_call_raising]" and after = "[]",
             OF n3[symmetric] refl refl, unfolded r]
  from t calc p3 t3
  have "content (execute_tool ex_tools (ex_calls ! 1)) = Some (PyStr (str_of ex_tools ''4''))"
    by blast
  then have c3: "content (execute_tool ex_tools (ex_calls ! 1)) = Some (PyStr ''4'')"
    unfolding s3 .
  from t have shape: "role (execute_tool ex_tools (ex_calls ! 1)) = Some ''tool'' \<and>
       tool_call_id (execute_tool ex_tools (ex_calls ! 1)) = Some (mtc_id (ex_calls ! 1)) \<and>
       name (execute_tool ex_tools (ex_calls ! 1)) = Some ''calculate'' \<and>
       tool_calls (execute_tool ex_tools (ex_calls ! 1)) = None"
    by blast
  from t have pos:
    "dispatch ?e ([ex_calls ! 0, ex_call_unparsed, ex_call_raising] @ ex_calls ! 1 # []) !
       length [ex_calls ! 0, ex_call_unparsed, ex_call_raising] = execute_tool ex_tools (ex_calls ! 1)"
    and len: "length (dispatch ?e ([ex_calls ! 0, ex_call_unparsed, ex_call_raising] @ ex_calls ! 1 # []))
       = length [ex_calls ! 0, ex_call_unparsed, ex_call_raising] + 1 + length ([] :: model_tool_call list)"
    by blast+
  have id3: "mtc_id (ex_calls ! 1) = ''call_2''" by (simp add: ex_calls_def)
  have whole: "execute_tool ex_tools (ex_calls ! 1) =
     \<lparr>role = Some ''tool'', content = Some (PyStr ''4''), tool_calls = None,
      tool_call_id = Some ''call_2'', name = Some ''calculate''\<rparr>"
    using shape c3 id3 by (cases "execute_tool ex_tools (ex_calls ! 1)") simp
  from pos whole have pos': "dispatch ?e [ex_calls ! 0, ex_call_unparsed, ex_call_raising, ex_calls ! 1] ! 3 =
     \<lparr>role = Some ''tool'', content = Some (PyStr ''4''), tool_calls = None,
      tool_call_id = Some ''call_2'', name = Some ''calculate''\<rparr>"
    by (simp add: eval_nat_numeral)
  from len have len': "length (dispatch ?e [ex_calls ! 0, ex_call_unparsed, ex_call_raising, ex_calls ! 1]) = 4"
    by simp
  from g0 c0 j1 c1 j2 c2 j3 c3 pos' len' show ?thesis by blast
qed

section \<open>Properties of the turn\<close>

text \<open>
  Claim C7. When the decision request raises, \<open>get_model_decision\<close> raises, the turn
  ends with the one error \<^verbatim>\<open>HTTPException(500)\<close>, and the database is the one the turn
  started with: no message of the turn is stored.
\<close>

theorem decision_failure_no_commit:
  "chat_decision (llm e) (turn_messages e req db) = Raised err \<Longrightarrow>
   (\<exists>err'. get_model_decision (llm e) (turn_messages e req db) = Raised err') \<and>
   llm_with_tools e req db = (Inl (HTTPException 500), db)"
  by (simp add: llm_with_tools_def get_model_decision_def Let_def)

theorem decision_failure_no_commit_witness:
  "chat_decision (llm (ex_env ex_llm_down)) (turn_messages (ex_env ex_llm_down) (ex_request ''s'') db_chain)
     = Raised ''connection refused'' \<and>
   llm_with_tools (ex_env ex_llm_down) (ex_request ''s'') db_chain = (Inl (HTTPException 500), db_chain)"
proof -
  have h: "chat_decision (llm (ex_env ex_llm_down))
             (turn_messages (ex_env ex_llm_down) (ex_request ''s'') db_chain)
           = Raised ''connection refused''"
    by (simp add: ex_env_def ex_llm_down_def)
  from decision_failure_no_commit[OF h] h show ?thesis by simp
qed







text \<open>
  A commit that fails is swallowed: under a session id of 300 characters, longer than the
  column \<^verbatim>\<open>session_id String(255)\<close>, \<open>update_history\<close> raises, \<open>save_to_memory\<close> returns
  the database as it was, and so does it for the empty session id, which
  \<open>update_history\<close> leaves without a commit.
\<close>

lemma save_to_memory_failed_commit:
  "update_history column_limits ex_dumps (replicate 300 CHR ''x'') [plain ''user'' ''hi''] db_chain
     = Raised ''commit failed'' \<and>
   save_to_memory column_limits ex_dumps (replicate 300 CHR ''x'') [plain ''user'' ''hi''] db_chain
     = db_chain \<and>
   update_history column_limits ex_dumps [] [plain ''user'' ''hi''] db_chain = Returned db_chain \<and>
   save_to_memory column_limits ex_dumps ''s'' [plain ''user'' ''hi''] db_chain =
     db_chain @ [\<lparr>cm_session_id = ''s'', cm_role = ''user'', cm_content = ''user: hi''\<rparr>]"
  by code_simp

end
